theory Spec2Isabelle
  imports Complex_Main "HOL-Library.AList" "HOL-Library.Char_ord" "HOL-Library.Sublist"
begin

section \<open>The local-search engine (projects/local-search/src/engine.js)\<close>

text \<open>
  The engine keeps one index object in memory: the stored documents, the inverted index
  (term to posting map), the document frequencies and a document counter. This theory
  embeds the tokenizer, \<open>addDocument\<close>, \<open>removeDocument\<close>, \<open>indexDirectory\<close>, \<open>search\<close>,
  \<open>update\<close> and \<open>loadIndex\<close> as functions on that index.

  Conventions of the embedding.
  \<^item> A JavaScript object used as a dictionary is the list of its own properties in
    property order: array indices first, in ascending order, then the other keys in
    order of creation. \<open>put\<close> writes an own property, \<open>AList.delete\<close> is \<open>delete obj[k]\<close>.
  \<^item> Every dictionary of the engine is a plain object, so a read \<open>obj[k]\<close> of a key that
    is no own property finds the member of \<open>Object.prototype\<close> of that name, if there is
    one (\<open>constructor\<close>, \<open>toString\<close>, \<open>__proto__\<close>, ...): \<open>js_get\<close> tells the three cases
    apart. A write \<open>obj[k] = v\<close> creates an own property, except for the key \<open>__proto__\<close>,
    which is an accessor: it drops a number or a string (\<open>js_set\<close>).
  \<^item> What the embedding leaves out. The builtin objects are as they are when the process
    starts: what the code writes onto one of them (\<open>invertedIndex["constructor"]\<close> is the
    function \<open>Object\<close> as long as \<open>constructor\<close> is no own key) is not recorded, and a
    builtin reached in this way is taken to have the members of \<open>Object.prototype\<close> and no
    others. So a document path that names an own member of the function \<open>Object\<close> or a
    member of \<open>Function.prototype\<close> (\<open>keys\<close>, \<open>name\<close>, \<open>length\<close>, \<open>call\<close>, ...) is outside
    the embedding, and so is the document path \<open>__proto__\<close>, for which the write of the
    document record replaces the prototype of \<open>documents\<close>. No such name contains a
    slash or a dot (\<open>path_like\<close> below).
  \<^item> A string is a list of characters, one \<open>char\<close> for one UTF-16 code unit below 256.
  \<^item> Numbers that count are \<open>nat\<close> or \<open>int\<close>; scores are real numbers (no rounding).
    Where the JavaScript arithmetic would produce \<open>NaN\<close>, an infinity or a string in the
    place of a number, the embedding says so explicitly.
  \<^item> Calls into the file system are results supplied by a description of the world; a
    call that throws is the value \<open>Throws\<close>.
\<close>

subsection \<open>Objects\<close>

type_synonym 'v obj = "(string \<times> 'v) list"

text \<open>The string-keyed members of \<open>Object.prototype\<close>.\<close>

definition Object_prototype_members :: "string list" where
  "Object_prototype_members =
    [''constructor'', ''__defineGetter__'', ''__defineSetter__'', ''hasOwnProperty'',
     ''__lookupGetter__'', ''__lookupSetter__'', ''isPrototypeOf'', ''propertyIsEnumerable'',
     ''toString'', ''valueOf'', ''__proto__'', ''toLocaleString'']"

definition inherited :: "string \<Rightarrow> bool" where
  "inherited k = (k \<in> set Object_prototype_members)"

text \<open>
  The result of a read \<open>obj[k]\<close>: the own property, else the inherited member (a function,
  or \<open>Object.prototype\<close> itself for \<open>__proto__\<close>; always truthy), else \<open>undefined\<close>.
\<close>

datatype 'v read = Own 'v | Inherited | Undefined

definition js_get :: "'v obj \<Rightarrow> string \<Rightarrow> 'v read" where
  "js_get obj k =
     (case map_of obj k of
        Some v \<Rightarrow> Own v
      | None \<Rightarrow> if inherited k then Inherited else Undefined)"

text \<open>
  Array indices: the canonical decimal numerals of the integers from 0 to \<open>2^32 - 2\<close>.
  They come first in property order, in ascending order.
\<close>

definition isDigit :: "char \<Rightarrow> bool" where
  "isDigit c = (c \<in> set ''0123456789'')"

definition index_value :: "string \<Rightarrow> nat" where
  "index_value k = foldl (\<lambda>n c. 10 * n + (of_char c - 48)) 0 k"

definition is_index :: "string \<Rightarrow> bool" where
  "is_index k \<longleftrightarrow>
     k \<noteq> [] \<and> list_all isDigit k \<and> (k = ''0'' \<or> hd k \<noteq> CHR ''0'') \<and>
     index_value k < 4294967295"

fun insert_index :: "string \<Rightarrow> 'v \<Rightarrow> 'v obj \<Rightarrow> 'v obj" where
  "insert_index k v [] = [(k, v)]"
| "insert_index k v (e # rest) =
     (if is_index (fst e) \<and> index_value (fst e) < index_value k
      then e # insert_index k v rest
      else (k, v) # e # rest)"

text \<open>
  The write of an own property: in place when the key exists, else a new property at
  its place in property order.
\<close>

definition put :: "string \<Rightarrow> 'v \<Rightarrow> 'v obj \<Rightarrow> 'v obj" where
  "put k v obj =
     (if map_of obj k \<noteq> None then AList.update k v obj
      else if is_index k then insert_index k v obj
      else obj @ [(k, v)])"

text \<open>
  \<open>obj[k] = v\<close> for a number or a string \<open>v\<close>: the setter of \<open>__proto__\<close> ignores such a
  value, so nothing is stored unless \<open>__proto__\<close> is an own property already.
\<close>

definition js_set :: "string \<Rightarrow> 'v \<Rightarrow> 'v obj \<Rightarrow> 'v obj" where
  "js_set k v obj = (if k = ''__proto__'' \<and> map_of obj k = None then obj else put k v obj)"

subsection \<open>Numbers and results of system calls\<close>

text \<open>
  A number stored in \<open>docFreq\<close>. \<open>x++\<close> and \<open>x--\<close> convert what they read to a number:
  \<open>undefined\<close> and an inherited member give \<open>NaN\<close>.
\<close>

datatype jsnum = Num int | NaN

fun incr :: "jsnum read \<Rightarrow> jsnum" where
  "incr (Own (Num n)) = Num (n + 1)"
| "incr (Own NaN) = NaN"
| "incr Inherited = NaN"
| "incr Undefined = NaN"

fun decr :: "jsnum read \<Rightarrow> jsnum" where
  "decr (Own (Num n)) = Num (n - 1)"
| "decr (Own NaN) = NaN"
| "decr Inherited = NaN"
| "decr Undefined = NaN"

text \<open>\<open>x <= 0\<close> for what a read gives; a comparison with \<open>NaN\<close> is false.\<close>

fun le_zero :: "jsnum read \<Rightarrow> bool" where
  "le_zero (Own (Num n)) = (n \<le> 0)"
| "le_zero (Own NaN) = False"
| "le_zero Inherited = False"
| "le_zero Undefined = False"

text \<open>
  A stored posting count: a number, or the string that \<open>(wordCounts[token] || 0) + 1\<close>
  makes of an inherited member. A string held here that is not empty is taken to be no
  numeral, as the strings are that the code stores.
\<close>

datatype count = Count nat | Text string

text \<open>Truthiness of what a read of a posting map gives.\<close>

fun truthy :: "count read \<Rightarrow> bool" where
  "truthy (Own (Count n)) = (n \<noteq> 0)"
| "truthy (Own (Text s)) = (s \<noteq> [])"
| "truthy Inherited = True"
| "truthy Undefined = False"

text \<open>The number that a division makes of a count; \<open>None\<close> stands for \<open>NaN\<close>.\<close>

fun count_number :: "count \<Rightarrow> nat option" where
  "count_number (Count n) = Some n"
| "count_number (Text s) = (if s = [] then Some 0 else None)"

datatype 'a io = Returns 'a | Throws

subsection \<open>Strings\<close>

text \<open>\<open>String.prototype.toLowerCase\<close> on code units below 256.\<close>

definition toLowerChar :: "char \<Rightarrow> char" where
  "toLowerChar c = (let n = (of_char c :: nat) in
     if (65 \<le> n \<and> n \<le> 90) \<or> (192 \<le> n \<and> n \<le> 222 \<and> n \<noteq> 215)
     then char_of (n + 32) else c)"

definition toLowerCase :: "string \<Rightarrow> string" where
  "toLowerCase s = map toLowerChar s"

text \<open>The regular-expression class \<open>\s\<close> (also what \<open>trim\<close> removes) below 256.\<close>

definition isSpace :: "char \<Rightarrow> bool" where
  "isSpace c = (c \<in> set [CHR 0x09, CHR 0x0A, CHR 0x0B, CHR 0x0C, CHR 0x0D, CHR 0x20, CHR 0xA0])"

text \<open>The class \<open>[a-z0-9_]\<close>.\<close>

definition isWordChar :: "char \<Rightarrow> bool" where
  "isWordChar c = ((CHR ''a'' \<le> c \<and> c \<le> CHR ''z'') \<or> (CHR ''0'' \<le> c \<and> c \<le> CHR ''9'')
     \<or> c = CHR ''_'')"

text \<open>
  \<open>s.split(/\s+/)\<close>: the pieces between maximal runs of white space. A string that starts
  (ends) with white space yields an empty first (last) piece; the empty string yields one
  empty piece.
\<close>

function split_ws :: "string \<Rightarrow> string list" where
  "split_ws [] = [[]]"
| "split_ws (c # cs) =
     (if isSpace c then [] # split_ws (dropWhile isSpace cs)
      else (case split_ws cs of [] \<Rightarrow> [[c]] | w # ws \<Rightarrow> (c # w) # ws))"
  by pat_completeness auto
termination
  by (relation "measure length") (auto simp: less_Suc_eq_le length_dropWhile_le)

text \<open>\<open>s.split('\n')\<close>.\<close>

fun split_nl :: "string \<Rightarrow> string list" where
  "split_nl [] = [[]]"
| "split_nl (c # cs) =
     (if c = CHR 0x0A then [] # split_nl cs
      else (case split_nl cs of [] \<Rightarrow> [[c]] | w # ws \<Rightarrow> (c # w) # ws))"

definition trim :: "string \<Rightarrow> string" where
  "trim s = rev (dropWhile isSpace (rev (dropWhile isSpace s)))"

text \<open>\<open>s.replace(/\s+/g, ' ')\<close>.\<close>

function collapse_ws :: "string \<Rightarrow> string" where
  "collapse_ws [] = []"
| "collapse_ws (c # cs) =
     (if isSpace c then CHR 0x20 # collapse_ws (dropWhile isSpace cs)
      else c # collapse_ws cs)"
  by pat_completeness auto
termination
  by (relation "measure length") (auto simp: less_Suc_eq_le length_dropWhile_le)

text \<open>\<open>hay.indexOf(needle)\<close>, with \<open>None\<close> for \<open>-1\<close>.\<close>

fun indexOf :: "string \<Rightarrow> string \<Rightarrow> nat option" where
  "indexOf [] needle = (if needle = [] then Some 0 else None)"
| "indexOf (c # cs) needle =
     (if prefix needle (c # cs) then Some 0 else map_option Suc (indexOf cs needle))"

text \<open>\<open>s.substring(a, b)\<close> for indices that are not negative.\<close>

definition substring :: "string \<Rightarrow> nat \<Rightarrow> nat \<Rightarrow> string" where
  "substring s a b = (let lo = min (min a b) (length s); hi = min (max a b) (length s)
     in take (hi - lo) (drop lo s))"

subsection \<open>Tokenizer\<close>

definition tokenize :: "string \<Rightarrow> string list" where
  "tokenize text =
     filter (\<lambda>w. 2 \<le> length w \<and> length w \<le> 50)
       (split_ws (map (\<lambda>c. if isWordChar c \<or> isSpace c then c else CHR 0x20)
          (toLowerCase text)))"

subsection \<open>Data model\<close>

record document =
  filename :: string
  content :: string
  modified :: int
  size_chars :: nat
  extension :: string
  wordCount :: nat
  uniqueWords :: nat

record index =
  version :: int
  documents :: "document obj"
  invertedIndex :: "count obj obj"
  docFreq :: "jsnum obj"
  totalDocs :: int
  lastUpdated :: "string option"

definition MAX_FILE_SIZE :: nat where
  "MAX_FILE_SIZE = 5 * 1024 * 1024"

definition PREVIEW_LENGTH :: nat where
  "PREVIEW_LENGTH = 120"

definition BINARY_EXTENSIONS :: "string list" where
  "BINARY_EXTENSIONS =
    [''exe'', ''dll'', ''so'', ''dylib'', ''bin'',
     ''jpg'', ''jpeg'', ''png'', ''gif'', ''bmp'', ''webp'', ''svg'', ''ico'',
     ''mp3'', ''mp4'', ''avi'', ''mov'', ''mkv'', ''wav'', ''flac'',
     ''zip'', ''tar'', ''gz'', ''bz2'', ''7z'', ''rar'',
     ''pdf'', ''doc'', ''docx'', ''xls'', ''xlsx'', ''ppt'', ''pptx'',
     ''o'', ''obj'', ''a'', ''lib'', ''class'', ''pyc'', ''pyo'',
     ''woff'', ''woff2'', ''ttf'', ''otf'', ''eot'',
     ''db'', ''sqlite'', ''sqlite3'']"

definition createEmptyIndex :: index where
  "createEmptyIndex =
     \<lparr>version = 1, documents = [], invertedIndex = [], docFreq = [], totalDocs = 0,
      lastUpdated = None\<rparr>"

subsection \<open>Loading\<close>

text \<open>
  The backing file as \<open>loadIndex\<close> meets it: absent (\<open>existsSync\<close> is false), present but
  \<open>readFileSync\<close> throws, or present with text. \<open>JSON.parse\<close> is a parameter: \<open>None\<close> when
  it throws. What it returns is handed on unchecked, so its type is left open.
\<close>

datatype backing_file = Missing | Unreadable | Contents string

datatype 'j loaded = Parsed 'j | Fresh index

definition loadIndex :: "(string \<Rightarrow> 'j option) \<Rightarrow> backing_file \<Rightarrow> 'j loaded" where
  "loadIndex parse file =
     (case file of
        Missing \<Rightarrow> Fresh createEmptyIndex
      | Unreadable \<Rightarrow> Fresh createEmptyIndex
      | Contents text \<Rightarrow>
          (case parse text of
             None \<Rightarrow> Fresh createEmptyIndex
           | Some v \<Rightarrow> Parsed v))"

subsection \<open>Adding and removing a document\<close>

text \<open>
  The text that string concatenation makes of an inherited member: the source text of
  the function (the member \<open>constructor\<close> is the function \<open>Object\<close>), and \<open>[object Object]\<close>
  for \<open>Object.prototype\<close>, which is what \<open>__proto__\<close> reads.
\<close>

definition member_text :: "string \<Rightarrow> string" where
  "member_text k =
     (if k = ''__proto__'' then ''[object Object]''
      else ''function '' @ (if k = ''constructor'' then ''Object'' else k)
             @ ''() { [native code] }'')"

text \<open>
  One step of the loop that fills the local \<open>wordCounts\<close> of \<open>addDocument\<close>:
  \<open>wordCounts[token] = (wordCounts[token] || 0) + 1\<close>. For a token that names an inherited
  member the sum is a string.
\<close>

definition count_token :: "count obj \<Rightarrow> string \<Rightarrow> count obj" where
  "count_token wc token =
     js_set token
       (case js_get wc token of
          Own (Count n) \<Rightarrow> Count (n + 1)
        | Own (Text s) \<Rightarrow> if s = [] then Count 1 else Text (s @ ''1'')
        | Inherited \<Rightarrow> Text (member_text token @ ''1'')
        | Undefined \<Rightarrow> Count 1)
       wc"

definition wordCounts :: "string list \<Rightarrow> count obj" where
  "wordCounts tokens = foldl count_token [] tokens"

text \<open>
  The body of the loop over \<open>Object.entries(wordCounts)\<close>. When \<open>invertedIndex[word]\<close> is an
  inherited member, no posting map is created, the test \<open>!invertedIndex[word][filePath]\<close>
  is a read of that builtin, and the count is written onto the builtin, not into the index.
\<close>

definition add_posting :: "string \<Rightarrow> index \<Rightarrow> string \<times> count \<Rightarrow> index" where
  "add_posting filePath idx entry =
     (case entry of (word, count) \<Rightarrow>
        let idx1 = (case js_get (invertedIndex idx) word of
                      Undefined \<Rightarrow> idx\<lparr>invertedIndex := put word [] (invertedIndex idx),
                                      docFreq := js_set word (Num 0) (docFreq idx)\<rparr>
                    | Own docs \<Rightarrow> idx
                    | Inherited \<Rightarrow> idx);
            target = js_get (invertedIndex idx1) word;
            present = (case target of
                         Own docs \<Rightarrow> truthy (js_get docs filePath)
                       | Inherited \<Rightarrow> inherited filePath
                       | Undefined \<Rightarrow> False);
            idx2 = (if \<not> present
                    then idx1\<lparr>docFreq :=
                           js_set word (incr (js_get (docFreq idx1) word)) (docFreq idx1)\<rparr>
                    else idx1)
        in case target of
             Own docs \<Rightarrow>
               idx2\<lparr>invertedIndex :=
                      AList.update word (js_set filePath count docs) (invertedIndex idx2)\<rparr>
           | Inherited \<Rightarrow> idx2
           | Undefined \<Rightarrow> idx2)"

definition addDocument ::
    "string \<Rightarrow> string \<Rightarrow> string \<Rightarrow> int \<Rightarrow> string \<Rightarrow> index \<Rightarrow> index" where
  "addDocument filePath fname text mtime ext idx =
     (let tokens = tokenize text;
          wc = wordCounts tokens;
          idx1 = idx\<lparr>documents :=
                   put filePath
                     \<lparr>filename = fname, content = take 10000 text, modified = mtime,
                      size_chars = length text, extension = ext,
                      wordCount = length tokens, uniqueWords = length wc\<rparr>
                     (documents idx)\<rparr>;
          idx2 = foldl (add_posting filePath) idx1 wc
      in idx2\<lparr>totalDocs := totalDocs idx2 + 1\<rparr>)"

text \<open>
  The body of the loop over \<open>Object.entries(this.index.invertedIndex)\<close>. \<open>docs\<close> is the
  posting object of the entry; deleting from it changes the object the index holds.
  The test \<open>docs[filePath]\<close> also succeeds for a path that names an inherited member;
  \<open>delete\<close> removes own properties only.
\<close>

definition remove_posting :: "string \<Rightarrow> index \<Rightarrow> string \<times> count obj \<Rightarrow> index" where
  "remove_posting filePath idx entry =
     (case entry of (word, docs) \<Rightarrow>
        if truthy (js_get docs filePath)
        then let idx1 = idx\<lparr>invertedIndex :=
                              AList.update word (AList.delete filePath docs) (invertedIndex idx)\<rparr>;
                 idx2 = idx1\<lparr>docFreq :=
                              js_set word (decr (js_get (docFreq idx1) word)) (docFreq idx1)\<rparr>
             in if le_zero (js_get (docFreq idx2) word)
                then idx2\<lparr>invertedIndex := AList.delete word (invertedIndex idx2),
                          docFreq := AList.delete word (docFreq idx2)\<rparr>
                else idx2
        else idx)"

text \<open>
  \<open>removeDocument\<close> returns early only when \<open>documents[filePath]\<close> is falsy; an inherited
  member is not.
\<close>

definition removeDocument :: "string \<Rightarrow> index \<Rightarrow> index" where
  "removeDocument filePath idx =
     (case js_get (documents idx) filePath of
        Undefined \<Rightarrow> idx
      | _ \<Rightarrow>
          let idx1 = foldl (remove_posting filePath) idx (invertedIndex idx)
          in idx1\<lparr>documents := AList.delete filePath (documents idx1),
                   totalDocs := totalDocs idx1 - 1\<rparr>)"

subsection \<open>Paths, binary files and ignore patterns\<close>

text \<open>
  Node's POSIX \<open>path\<close> module. \<open>normalizeString\<close> works on the segments between slashes:
  it drops empty segments and \<open>.\<close>, and lets \<open>..\<close> take back the segment before it; above
  the start of a relative path \<open>..\<close> is kept.
\<close>

fun split_slash :: "string \<Rightarrow> string list" where
  "split_slash [] = [[]]"
| "split_slash (c # cs) =
     (if c = CHR ''/'' then [] # split_slash cs
      else (case split_slash cs of [] \<Rightarrow> [[c]] | s # ss \<Rightarrow> (c # s) # ss))"

fun join_slash :: "string list \<Rightarrow> string" where
  "join_slash [] = []"
| "join_slash [s] = s"
| "join_slash (s # t # ss) = s @ ''/'' @ join_slash (t # ss)"

fun normalizeString :: "bool \<Rightarrow> string list \<Rightarrow> string list \<Rightarrow> string list" where
  "normalizeString allowAboveRoot res [] = res"
| "normalizeString allowAboveRoot res (s # segments) =
     (if s = [] \<or> s = ''.'' then normalizeString allowAboveRoot res segments
      else if s = ''..''
      then (if res \<noteq> [] \<and> last res \<noteq> ''..''
            then normalizeString allowAboveRoot (butlast res) segments
            else if allowAboveRoot
            then normalizeString allowAboveRoot (res @ [''..'']) segments
            else normalizeString allowAboveRoot res segments)
      else normalizeString allowAboveRoot (res @ [s]) segments)"

definition isAbsolute :: "string \<Rightarrow> bool" where
  "isAbsolute p \<longleftrightarrow> p \<noteq> [] \<and> hd p = CHR ''/''"

definition path_normalize :: "string \<Rightarrow> string" where
  "path_normalize p =
     (if p = [] then ''.''
      else let trailingSeparator = (last p = CHR ''/'');
               body = join_slash (normalizeString (\<not> isAbsolute p) [] (split_slash p))
           in if body = []
              then (if isAbsolute p then ''/'' else if trailingSeparator then ''./'' else ''.'')
              else (if isAbsolute p then ''/'' else []) @ body
                     @ (if trailingSeparator then ''/'' else []))"

text \<open>\<open>path.join(a, b)\<close>.\<close>

definition path_join :: "string \<Rightarrow> string \<Rightarrow> string" where
  "path_join a b =
     (let joined = (if a = [] then b else if b = [] then a else a @ ''/'' @ b)
      in if joined = [] then ''.'' else path_normalize joined)"

text \<open>
  The segments of \<open>path.resolve(p)\<close> in a process whose working directory is \<open>cwd\<close> (an
  absolute path), and \<open>path.relative(from, to)\<close>: one \<open>..\<close> for each segment of \<open>from\<close>
  behind the common start, then what is left of \<open>to\<close>.
\<close>

definition path_resolve :: "string \<Rightarrow> string \<Rightarrow> string list" where
  "path_resolve cwd p =
     normalizeString False [] (split_slash (if isAbsolute p then p else cwd @ ''/'' @ p))"

definition path_relative :: "string \<Rightarrow> string \<Rightarrow> string \<Rightarrow> string" where
  "path_relative cwd from to =
     (if from = to then []
      else let f = path_resolve cwd from;
               t = path_resolve cwd to;
               n = length (longest_common_prefix f t)
           in join_slash (replicate (length f - n) ''..'' @ drop n t))"

text \<open>\<open>path.basename(p)\<close> and \<open>path.extname(p)\<close>; both disregard trailing slashes.\<close>

definition path_basename :: "string \<Rightarrow> string" where
  "path_basename p =
     rev (takeWhile (\<lambda>c. c \<noteq> CHR ''/'') (dropWhile (\<lambda>c. c = CHR ''/'') (rev p)))"

definition path_extname :: "string \<Rightarrow> string" where
  "path_extname p =
     (let b = path_basename p; e = rev (takeWhile (\<lambda>c. c \<noteq> CHR ''.'') (rev b))
      in if CHR ''.'' \<notin> set b \<or> b = ''..'' \<or> length e + 1 = length b then [] else CHR ''.'' # e)"

text \<open>\<open>path.extname(p).toLowerCase().replace('.', '')\<close>.\<close>

definition extension_of :: "string \<Rightarrow> string" where
  "extension_of p = remove1 (CHR ''.'') (toLowerCase (path_extname p))"

definition isBinaryFile :: "string \<Rightarrow> bool" where
  "isBinaryFile filePath = (extension_of filePath \<in> set BINARY_EXTENSIONS)"

definition default_patterns :: "string list" where
  "default_patterns =
    [''node_modules/'', ''.git/'', ''.svn/'', ''.hg/'', ''target/'', ''dist/'', ''build/'',
     ''.next/'', ''.nuxt/'', ''coverage/'', ''*.log'', ''.env'', ''.env.*'', ''*.min.js'',
     ''*.min.css'', ''.local-search-index/'', ''.local-search/'']"

text \<open>
  \<open>loadIgnorePatterns\<close> reads \<open>.searchignore\<close> if it exists and else \<open>.gitignore\<close> if it
  exists (\<open>None\<close>: the file does not exist), and returns the pattern list that the
  closure \<open>ignores\<close> ranges over.
\<close>

definition loadIgnorePatterns :: "string io option \<Rightarrow> string io option \<Rightarrow> string list io" where
  "loadIgnorePatterns searchIgnore gitIgnore =
     (case (case searchIgnore of Some r \<Rightarrow> r
            | None \<Rightarrow> (case gitIgnore of Some r \<Rightarrow> r | None \<Rightarrow> Returns []))
      of Throws \<Rightarrow> Throws
       | Returns ignoreContent \<Rightarrow>
           Returns (default_patterns @
             filter (\<lambda>l. trim l \<noteq> [] \<and> \<not> prefix ''#'' l) (split_nl ignoreContent)))"

fun ignores :: "string list \<Rightarrow> string \<Rightarrow> bool" where
  "ignores [] relativePath = False"
| "ignores (pattern # patterns) relativePath =
     (let cleanPattern = (if pattern \<noteq> [] \<and> last pattern = CHR ''/'' then butlast pattern
                          else pattern)
      in if relativePath = cleanPattern
            \<or> prefix (cleanPattern @ ''/'') relativePath
            \<or> prefix (cleanPattern @ [CHR 0x5C]) relativePath
         then True
         else if prefix ''*.'' pattern \<and> suffix (''.'' @ drop 2 pattern) relativePath
         then True
         else ignores patterns relativePath)"

subsection \<open>Crawling a directory\<close>

text \<open>
  A directory entry as the crawl meets it. A file carries what \<open>statSync\<close> gives (size and
  modification time) and what \<open>readFileSync\<close> gives; a directory carries what
  \<open>readdirSync\<close> gives; anything else is neither file nor directory.
\<close>

datatype fsnode =
    File string "(nat \<times> int) io" "string io"
  | Dir string "fsnode list io"
  | Other string

record counters =
  filesIndexed :: nat
  binaryFiles :: nat
  ignoredFiles :: nat

record crawl_result = counters +
  duration :: int

text \<open>
  The state of the walk: the index, the three counters, and whether an exception is on
  its way to the caller (only \<open>readdirSync\<close> can throw outside the \<open>try\<close> block).
\<close>

record walk =
  idx_of :: index
  counts :: counters
  raised :: bool

text \<open>
  The branch \<open>else if (entry.isFile())\<close> of the loop in \<open>walkDir\<close>. \<open>existing\<close> is what
  \<open>documents[fullPath]\<close> reads; an inherited member has no field \<open>modified\<close> and is truthy.
\<close>

definition walkFile ::
    "string \<Rightarrow> (string \<Rightarrow> bool) \<Rightarrow> string \<Rightarrow> string \<Rightarrow> string \<Rightarrow> (nat \<times> int) io \<Rightarrow> string io \<Rightarrow>
     walk \<Rightarrow> walk"
where
  "walkFile cwd ig dirPath currentPath name stat rd w =
     (let fullPath = path_join currentPath name;
          relativePath = path_relative cwd dirPath fullPath
      in if ig relativePath
         then w\<lparr>counts := (counts w)\<lparr>ignoredFiles := ignoredFiles (counts w) + 1\<rparr>\<rparr>
         else if isBinaryFile fullPath
         then w\<lparr>counts := (counts w)\<lparr>binaryFiles := binaryFiles (counts w) + 1\<rparr>\<rparr>
         else (case stat of
                 Throws \<Rightarrow> w\<lparr>counts := (counts w)\<lparr>ignoredFiles := ignoredFiles (counts w) + 1\<rparr>\<rparr>
               | Returns (sz, mtime) \<Rightarrow>
                   if sz > MAX_FILE_SIZE then w
                   else let existing = js_get (documents (idx_of w)) fullPath
                        in if (case existing of Own d \<Rightarrow> modified d = mtime
                               | Inherited \<Rightarrow> False | Undefined \<Rightarrow> False)
                           then w
                           else (case rd of
                                   Throws \<Rightarrow>
                                     w\<lparr>counts := (counts w)\<lparr>ignoredFiles := ignoredFiles (counts w) + 1\<rparr>\<rparr>
                                 | Returns text \<Rightarrow>
                                     let ext = extension_of fullPath;
                                         idx1 = (case existing of
                                                   Undefined \<Rightarrow> idx_of w
                                                 | _ \<Rightarrow> removeDocument fullPath (idx_of w));
                                         idx2 = addDocument fullPath name text mtime ext idx1
                                     in w\<lparr>idx_of := idx2,
                                          counts := (counts w)\<lparr>filesIndexed :=
                                                      filesIndexed (counts w) + 1\<rparr>\<rparr>)))"

text \<open>
  The loop of \<open>walkDir\<close> over the entries that \<open>readdirSync(currentPath)\<close> returned.
  A \<open>readdirSync\<close> that throws is not caught: the exception leaves every enclosing loop.
\<close>

fun walkDir ::
    "string \<Rightarrow> (string \<Rightarrow> bool) \<Rightarrow> string \<Rightarrow> string \<Rightarrow> fsnode list \<Rightarrow> walk \<Rightarrow> walk" where
  "walkDir cwd ig dirPath currentPath [] w = w"
| "walkDir cwd ig dirPath currentPath (Dir name sub # entries) w =
     (let fullPath = path_join currentPath name;
          relativePath = path_relative cwd dirPath fullPath
      in if \<not> ig (relativePath @ ''/'')
         then (case sub of
                 Throws \<Rightarrow> w\<lparr>raised := True\<rparr>
               | Returns subEntries \<Rightarrow>
                   let w1 = walkDir cwd ig dirPath fullPath subEntries w
                   in if raised w1 then w1 else walkDir cwd ig dirPath currentPath entries w1)
         else walkDir cwd ig dirPath currentPath entries w)"
| "walkDir cwd ig dirPath currentPath (File name stat rd # entries) w =
     walkDir cwd ig dirPath currentPath entries (walkFile cwd ig dirPath currentPath name stat rd w)"
| "walkDir cwd ig dirPath currentPath (Other name # entries) w =
     walkDir cwd ig dirPath currentPath entries w"

text \<open>
  The world of one \<open>indexDirectory\<close> call: the working directory of the process, the two
  ignore files, the listing of the root directory, the clock and the time stamp, and
  whether \<open>saveIndex\<close> throws.
\<close>

record crawl_world =
  processCwd :: string
  searchignore :: "string io option"
  gitignore :: "string io option"
  root :: "fsnode list io"
  startTime :: int
  endTime :: int
  isoNow :: string
  saveThrows :: bool

text \<open>The removal phase of a forced run.\<close>

definition forceRemove :: "string \<Rightarrow> index \<Rightarrow> index" where
  "forceRemove dirPath idx =
     (let toRemove = filter (\<lambda>p. prefix dirPath p) (map fst (documents idx))
      in foldl (\<lambda>i p. removeDocument p i) idx toRemove)"

datatype exception = Exception

definition indexDirectory ::
    "crawl_world \<Rightarrow> string \<Rightarrow> bool \<Rightarrow> index \<Rightarrow> index \<times> (exception + crawl_result)" where
  "indexDirectory world dirPath force idx =
     (case loadIgnorePatterns (searchignore world) (gitignore world) of
        Throws \<Rightarrow> (idx, Inl Exception)
      | Returns patterns \<Rightarrow>
          let idx1 = (if force then forceRemove dirPath idx else idx);
              w0 = \<lparr>idx_of = idx1,
                    counts = \<lparr>filesIndexed = 0, binaryFiles = 0, ignoredFiles = 0\<rparr>,
                    raised = False\<rparr>;
              w = (case root world of
                     Throws \<Rightarrow> w0\<lparr>raised := True\<rparr>
                   | Returns entries \<Rightarrow>
                       walkDir (processCwd world) (ignores patterns) dirPath dirPath entries w0)
          in if raised w then (idx_of w, Inl Exception)
             else let idx2 = (idx_of w)\<lparr>lastUpdated := Some (isoNow world)\<rparr>
                  in if saveThrows world then (idx2, Inl Exception)
                     else (idx2,
                           Inr \<lparr>filesIndexed = filesIndexed (counts w),
                                binaryFiles = binaryFiles (counts w),
                                ignoredFiles = ignoredFiles (counts w),
                                duration = endTime world - startTime world\<rparr>))"

subsection \<open>Searching\<close>

text \<open>
  The weight of a term and the term frequency, over the reals.
  \<open>idf nDocs df\<close> is \<open>Math.log((totalDocs + 1) / (docFreq[token] + 1)) + 1\<close>.
\<close>

definition idf :: "int \<Rightarrow> int \<Rightarrow> real" where
  "idf nDocs df = ln (real_of_int (nDocs + 1) / real_of_int (df + 1)) + 1"

definition tf :: "nat \<Rightarrow> nat \<Rightarrow> real" where
  "tf count wc = real count / real wc"

text \<open>
  The weight as \<open>search\<close> computes it from the index. It is a finite number when
  \<open>docFreq[token]\<close> is a number and the quotient is positive; otherwise JavaScript
  yields \<open>NaN\<close> or an infinity, here \<open>None\<close>.
\<close>

definition idf_of :: "index \<Rightarrow> string \<Rightarrow> real option" where
  "idf_of idx token =
     (case map_of (docFreq idx) token of
        Some (Num df) \<Rightarrow>
          if (0 < totalDocs idx + 1 \<and> 0 < df + 1) \<or> (totalDocs idx + 1 < 0 \<and> df + 1 < 0)
          then Some (idf (totalDocs idx) df)
          else None
      | Some NaN \<Rightarrow> None
      | None \<Rightarrow> None)"

text \<open>
  What \<open>search\<close> cannot return in this embedding: a score that is not a finite number
  (the order of the result is then not fixed by the comparator), and the \<open>TypeError\<close> of
  reading a field of a missing document.
\<close>

datatype search_failure = NonFiniteScore | TypeError

text \<open>
  The loop over \<open>Object.entries(docs)\<close> for one query token. \<open>candidateScores\<close> is a plain
  object too: for a path that names an inherited member, \<open>candidateScores[docPath] += x\<close>
  appends to the text of that member (and stores nothing for \<open>__proto__\<close>).
\<close>

fun score_docs ::
    "index \<Rightarrow> string list \<Rightarrow> real option \<Rightarrow> count obj \<Rightarrow> real obj \<Rightarrow> search_failure + real obj"
where
  "score_docs idx extensions w [] candidateScores = Inr candidateScores"
| "score_docs idx extensions w ((docPath, count) # rest) candidateScores =
     (case js_get (documents idx) docPath of
        Undefined \<Rightarrow> score_docs idx extensions w rest candidateScores
      | Inherited \<Rightarrow>
          if extensions \<noteq> [] \<or> docPath = ''__proto__''
          then score_docs idx extensions w rest candidateScores
          else Inl NonFiniteScore
      | Own doc \<Rightarrow>
          if extensions \<noteq> [] \<and> extension doc \<notin> set extensions
          then score_docs idx extensions w rest candidateScores
          else (case js_get candidateScores docPath of
                  Inherited \<Rightarrow>
                    if docPath = ''__proto__''
                    then score_docs idx extensions w rest candidateScores
                    else Inl NonFiniteScore
                | Undefined \<Rightarrow>
                    (case (w, count_number count) of
                       (Some weight, Some n) \<Rightarrow>
                         if wordCount doc = 0 then Inl NonFiniteScore
                         else score_docs idx extensions w rest
                                (put docPath (0 + tf n (wordCount doc) * weight) candidateScores)
                     | _ \<Rightarrow> Inl NonFiniteScore)
                | Own v \<Rightarrow>
                    (case (w, count_number count) of
                       (Some weight, Some n) \<Rightarrow>
                         if wordCount doc = 0 then Inl NonFiniteScore
                         else score_docs idx extensions w rest
                                (put docPath (v + tf n (wordCount doc) * weight) candidateScores)
                     | _ \<Rightarrow> Inl NonFiniteScore)))"

text \<open>
  The loop over the query tokens. When \<open>invertedIndex[token]\<close> is an inherited member,
  \<open>Object.entries\<close> of that builtin is empty.
\<close>

fun score_tokens ::
    "index \<Rightarrow> string list \<Rightarrow> string list \<Rightarrow> real obj \<Rightarrow> search_failure + real obj"
where
  "score_tokens idx extensions [] candidateScores = Inr candidateScores"
| "score_tokens idx extensions (token # rest) candidateScores =
     (case js_get (invertedIndex idx) token of
        Undefined \<Rightarrow> score_tokens idx extensions rest candidateScores
      | Inherited \<Rightarrow> score_tokens idx extensions rest candidateScores
      | Own docs \<Rightarrow>
          (case score_docs idx extensions (idf_of idx token) docs candidateScores of
             Inl e \<Rightarrow> Inl e
           | Inr candidateScores1 \<Rightarrow> score_tokens idx extensions rest candidateScores1))"

definition extractPreview :: "string \<Rightarrow> string list \<Rightarrow> string" where
  "extractPreview text queryTokens =
     (let contentLower = toLowerCase text;
          bestIndex =
            foldl (\<lambda>best token.
                     case indexOf contentLower token of
                       None \<Rightarrow> best
                     | Some i \<Rightarrow> (case best of
                                    None \<Rightarrow> Some i
                                  | Some b \<Rightarrow> if i < b then Some i else best))
              None queryTokens
      in case bestIndex of
           None \<Rightarrow>
             (let preview = substring text 0 PREVIEW_LENGTH
              in if length text > PREVIEW_LENGTH then preview @ ''...'' else preview)
         | Some b \<Rightarrow>
             (let start = b - PREVIEW_LENGTH div 2;
                  stop = min (length text) (b + PREVIEW_LENGTH div 2);
                  preview = substring text start stop;
                  preview1 = (if start > 0 then ''...'' @ preview else preview);
                  preview2 = (if stop < length text then preview1 @ ''...'' else preview1)
              in trim (collapse_ws
                   (map (\<lambda>c. if c = CHR 0x0A then CHR 0x20 else c) preview2))))"

text \<open>One element of the array that \<open>search\<close> returns; \<open>fname\<close> is its field \<open>filename\<close>.\<close>

record hit =
  path :: string
  fname :: string
  score :: real
  preview :: string

fun make_hits :: "index \<Rightarrow> string list \<Rightarrow> real obj \<Rightarrow> search_failure + hit list" where
  "make_hits idx queryTokens [] = Inr []"
| "make_hits idx queryTokens ((p, sc) # rest) =
     (case js_get (documents idx) p of
        Undefined \<Rightarrow> Inl TypeError
      | Inherited \<Rightarrow> Inl TypeError
      | Own doc \<Rightarrow>
          (case make_hits idx queryTokens rest of
             Inl e \<Rightarrow> Inl e
           | Inr hits \<Rightarrow>
               Inr (\<lparr>path = p, fname = filename doc, score = sc,
                     preview = extractPreview (content doc) queryTokens\<rparr> # hits)))"

text \<open>\<open>xs.slice(0, limit)\<close>; a negative \<open>limit\<close> counts from the end.\<close>

definition slice0 :: "int \<Rightarrow> 'a list \<Rightarrow> 'a list" where
  "slice0 limit xs =
     (if limit < 0 then take (nat (int (length xs) + limit)) xs else take (nat limit) xs)"

text \<open>
  \<open>sort((a, b) => b.score - a.score)\<close> is a stable sort by descending score;
  \<open>sort_key\<close> is the stable insertion sort of the library.
\<close>

definition search ::
    "index \<Rightarrow> string \<Rightarrow> string list \<Rightarrow> int \<Rightarrow> search_failure + hit list" where
  "search idx query extensions limit =
     (let queryTokens = tokenize query
      in if queryTokens = [] then Inr []
         else (case score_tokens idx extensions queryTokens [] of
                 Inl e \<Rightarrow> Inl e
               | Inr candidateScores \<Rightarrow>
                   (case make_hits idx queryTokens candidateScores of
                      Inl e \<Rightarrow> Inl e
                    | Inr hits \<Rightarrow> Inr (slice0 limit (sort_key (\<lambda>h. - score h) hits)))))"

subsection \<open>Incremental update\<close>

text \<open>
  A stored path as \<open>update\<close> meets it on disk: absent (\<open>existsSync\<close> is false), or present
  with what \<open>statSync\<close> gives (the modification time) and what \<open>readFileSync\<close> gives.
\<close>

datatype fsentry = Absent | Present "int io" "string io"

record update_result =
  added :: nat
  removed :: nat
  modified' :: nat

text \<open>The body of the loop over \<open>Object.entries(this.index.documents)\<close>.\<close>

definition update_entry ::
    "(string \<Rightarrow> fsentry) \<Rightarrow> index \<times> update_result \<Rightarrow> string \<times> document \<Rightarrow> index \<times> update_result"
where
  "update_entry disk st entry =
     (case (st, entry) of ((idx, r), (docPath, doc)) \<Rightarrow>
        (case disk docPath of
           Absent \<Rightarrow> (removeDocument docPath idx, r\<lparr>removed := removed r + 1\<rparr>)
         | Present stat rd \<Rightarrow>
             (case stat of
                Throws \<Rightarrow> (idx, r)
              | Returns mtime \<Rightarrow>
                  if mtime \<noteq> modified doc
                  then (case rd of
                          Throws \<Rightarrow> (idx, r)
                        | Returns text \<Rightarrow>
                            (addDocument docPath (path_basename docPath) text mtime
                               (extension_of docPath) (removeDocument docPath idx),
                             r\<lparr>modified' := modified' r + 1\<rparr>))
                  else (idx, r))))"

definition update :: "(string \<Rightarrow> fsentry) \<Rightarrow> bool \<Rightarrow> index \<Rightarrow> index \<times> (exception + update_result)" where
  "update disk saveFails idx =
     (case foldl (update_entry disk) (idx, \<lparr>added = 0, removed = 0, modified' = 0\<rparr>)
             (documents idx)
      of (idx1, r) \<Rightarrow> if saveFails then (idx1, Inl Exception) else (idx1, Inr r))"

section \<open>Properties\<close>

subsection \<open>Predicates on the index\<close>

text \<open>
  \<open>docFreq\<close> and \<open>invertedIndex\<close> have the same keys, and \<open>docFreq[T]\<close> is the number of
  entries of \<open>invertedIndex[T]\<close>.
\<close>

definition postings_inv :: "index \<Rightarrow> bool" where
  "postings_inv idx \<longleftrightarrow>
     set (map fst (docFreq idx)) = set (map fst (invertedIndex idx)) \<and>
     list_all (\<lambda>e. map_of (docFreq idx) (fst e) = Some (Num (int (length (snd e)))))
       (invertedIndex idx)"

text \<open>\<open>totalDocs\<close> is the number of entries of \<open>documents\<close>.\<close>

definition totalDocs_inv :: "index \<Rightarrow> bool" where
  "totalDocs_inv idx \<longleftrightarrow> totalDocs idx = int (length (documents idx))"

text \<open>\<open>documents\<close> lists each path once and \<open>totalDocs\<close> counts its entries.\<close>

definition docs_ok :: "index \<Rightarrow> bool" where
  "docs_ok idx \<longleftrightarrow> distinct (map fst (documents idx)) \<and> totalDocs_inv idx"

text \<open>
  A path with a slash or a dot in it, as every absolute path and every file name with an
  extension. The names of the members of the builtin objects are identifiers: they
  contain neither.
\<close>

definition path_like :: "string \<Rightarrow> bool" where
  "path_like p \<longleftrightarrow> CHR ''/'' \<in> set p \<or> CHR ''.'' \<in> set p"

subsection \<open>The specification's reading of tokenizing and of a directory subtree\<close>

text \<open>
  The maximal non-empty runs of characters that satisfy \<open>P\<close>, in order of occurrence:
  skip what does not satisfy \<open>P\<close>, take the longest stretch that does, go on behind it.
\<close>

function maximal_runs :: "(char \<Rightarrow> bool) \<Rightarrow> string \<Rightarrow> string list" where
  "maximal_runs P [] = []"
| "maximal_runs P (c # cs) =
     (if P c then takeWhile P (c # cs) # maximal_runs P (dropWhile P cs)
      else maximal_runs P cs)"
  by pat_completeness auto
termination
  by (relation "measure (\<lambda>(P, s). length s)") (auto simp: less_Suc_eq_le length_dropWhile_le)

text \<open>A path lies under a directory: it is the directory or a path inside its subtree.\<close>

definition lies_under :: "string \<Rightarrow> string \<Rightarrow> bool" where
  "lies_under rootPath p \<longleftrightarrow> p = rootPath \<or> prefix (rootPath @ ''/'') p"

subsection \<open>Example states and worlds\<close>

text \<open>The two files of the scenario, indexed in either order.\<close>

definition index_a :: index where
  "index_a = addDocument ''a.txt'' ''a.txt'' ''apple banana apple'' 1 ''txt'' createEmptyIndex"

definition index_ab :: index where
  "index_ab = addDocument ''b.txt'' ''b.txt'' ''banana cherry'' 2 ''txt'' index_a"

definition index_ba :: index where
  "index_ba =
     addDocument ''a.txt'' ''a.txt'' ''apple banana apple'' 1 ''txt''
       (addDocument ''b.txt'' ''b.txt'' ''banana cherry'' 2 ''txt'' createEmptyIndex)"

text \<open>
  A directory \<open>/r\<close> with a changed \<open>a.txt\<close>, a file of more than 5 MB, an image, and a
  subdirectory with one file; and a disk on which \<open>a.txt\<close> is gone and \<open>b.txt\<close> changed.
\<close>

definition world_r :: crawl_world where
  "world_r =
     \<lparr>processCwd = ''/'', searchignore = None, gitignore = None,
      root = Returns
        [File ''a.txt'' (Returns (12, 3)) (Returns ''apple cherry''),
         File ''big.txt'' (Returns (5242881, 3)) (Returns ''too big to index''),
         File ''logo.png'' (Returns (10, 3)) Throws,
         Dir ''sub'' (Returns [File ''c.md'' (Returns (11, 4)) (Returns ''banana date'')])],
      startTime = 100, endTime = 107, isoNow = ''2026-02-16T00:00:00.000Z'',
      saveThrows = False\<rparr>"

definition disk_b :: "string \<Rightarrow> fsentry" where
  "disk_b p = (if p = ''b.txt'' then Present (Returns 5) (Returns ''banana kiwi'') else Absent)"

text \<open>
  Four directories \<open>/r\<close> with one entry or none: a text file of one byte more than 5 MB;
  nothing; an image; a text file that \<open>statSync\<close> fails on.
\<close>

definition world_big :: crawl_world where
  "world_big =
     \<lparr>processCwd = ''/'', searchignore = None, gitignore = None,
      root = Returns [File ''big.txt'' (Returns (5242881, 3)) (Returns ''too big to index'')],
      startTime = 100, endTime = 107, isoNow = ''2026-02-16T00:00:00.000Z'',
      saveThrows = False\<rparr>"

definition world_empty :: crawl_world where
  "world_empty =
     \<lparr>processCwd = ''/'', searchignore = None, gitignore = None, root = Returns [],
      startTime = 100, endTime = 107, isoNow = ''2026-02-16T00:00:00.000Z'',
      saveThrows = False\<rparr>"

definition world_image :: crawl_world where
  "world_image =
     \<lparr>processCwd = ''/'', searchignore = None, gitignore = None,
      root = Returns [File ''logo.png'' (Returns (10, 3)) (Returns ''PNG'')],
      startTime = 100, endTime = 107, isoNow = ''2026-02-16T00:00:00.000Z'',
      saveThrows = False\<rparr>"

definition world_unreadable :: crawl_world where
  "world_unreadable =
     \<lparr>processCwd = ''/'', searchignore = None, gitignore = None,
      root = Returns [File ''gone.txt'' Throws Throws],
      startTime = 100, endTime = 107, isoNow = ''2026-02-16T00:00:00.000Z'',
      saveThrows = False\<rparr>"

text \<open>
  A directory \<open>/r\<close> that holds one source file, with the word \<open>constructor\<close> in it (as
  \<open>engine.js\<close> itself has), and the index after that file has been added to the empty one.
\<close>

definition world_src :: crawl_world where
  "world_src =
     \<lparr>processCwd = ''/'', searchignore = None, gitignore = None,
      root = Returns [File ''engine.js'' (Returns (40, 1))
                        (Returns ''class SearchEngine { constructor() { } }'')],
      startTime = 100, endTime = 107, isoNow = ''2026-02-16T00:00:00.000Z'',
      saveThrows = False\<rparr>"

definition index_src :: index where
  "index_src =
     addDocument ''/r/engine.js'' ''engine.js'' ''class SearchEngine { constructor() { } }'' 1
       ''js'' createEmptyIndex"

text \<open>An index that holds one document, from the directory \<open>/a/bc\<close>.\<close>

definition index_sibling :: index where
  "index_sibling =
     addDocument ''/a/bc/x.txt'' ''x.txt'' ''hello world'' 1 ''txt'' createEmptyIndex"

section \<open>Proofs\<close>

subsection \<open>Objects\<close>

lemma length_update_old: "map_of al k = Some x \<Longrightarrow> length (AList.update k v al) = length al"
  by (induction al) auto

lemma length_delete_present:
  "distinct (map fst al) \<Longrightarrow> map_of al k = Some v \<Longrightarrow> Suc (length (AList.delete k al)) = length al"
  by (induction al) (auto simp: AList.delete_id image_iff rev_image_eqI)

lemma length_insert_index [simp]: "length (insert_index k v obj) = Suc (length obj)"
  by (induction obj) auto

lemma keys_insert_index [simp]: "fst ` set (insert_index k v obj) = insert k (fst ` set obj)"
  by (induction obj) auto

lemma distinct_insert_index:
  "distinct (map fst obj) \<Longrightarrow> k \<notin> fst ` set obj \<Longrightarrow> distinct (map fst (insert_index k v obj))"
proof (induction obj)
  case Nil
  then show ?case by simp
next
  case (Cons e obj)
  have "fst e \<notin> fst ` set (insert_index k v obj)"
    using Cons.prems by auto
  with Cons show ?case
    by (auto simp del: keys_insert_index)
qed

lemma map_of_insert_index:
  "map_of obj k = None \<Longrightarrow> map_of (insert_index k v obj) = (map_of obj)(k \<mapsto> v)"
  by (induction obj) (auto simp: fun_upd_twist split: if_splits)

lemma map_of_put: "map_of (put k v obj) = (map_of obj)(k \<mapsto> v)"
proof (cases "map_of obj k")
  case None
  have "map_of (obj @ [(k, v)]) = (map_of obj)(k \<mapsto> v)"
    using None by (auto simp: map_add_def fun_eq_iff split: option.splits)
  with None show ?thesis
    by (simp add: put_def map_of_insert_index)
next
  case (Some x)
  then show ?thesis
    by (simp add: put_def update_conv')
qed

lemma length_put_new: "map_of obj k = None \<Longrightarrow> length (put k v obj) = Suc (length obj)"
  by (simp add: put_def)

lemma distinct_put: "distinct (map fst obj) \<Longrightarrow> distinct (map fst (put k v obj))"
  by (auto simp: put_def distinct_update distinct_insert_index map_of_eq_None_iff)

lemma js_get_Undefined: "js_get obj k = Undefined \<longleftrightarrow> map_of obj k = None \<and> \<not> inherited k"
  by (simp add: js_get_def split: option.splits)

lemma js_get_not_inherited:
  "\<not> inherited k \<Longrightarrow> js_get obj k = (case map_of obj k of Some v \<Rightarrow> Own v | None \<Rightarrow> Undefined)"
  by (simp add: js_get_def)

lemma path_like_not_inherited: "path_like p \<Longrightarrow> \<not> inherited p"
  by (auto simp: path_like_def inherited_def Object_prototype_members_def)

lemma isAbsolute_path_like: "isAbsolute p \<Longrightarrow> path_like p"
  by (cases p) (auto simp: isAbsolute_def path_like_def)

lemma isAbsolute_path_join: "isAbsolute a \<Longrightarrow> isAbsolute (path_join a b)"
  by (cases a) (auto simp: isAbsolute_def path_join_def path_normalize_def Let_def)

subsection \<open>Adding a document\<close>

lemma add_posting_documents [simp]: "documents (add_posting p idx e) = documents idx"
  by (cases e) (simp add: add_posting_def Let_def split: read.splits)

lemma add_posting_totalDocs [simp]: "totalDocs (add_posting p idx e) = totalDocs idx"
  by (cases e) (simp add: add_posting_def Let_def split: read.splits)

lemma foldl_add_posting_documents [simp]:
  "documents (foldl (add_posting p) idx wc) = documents idx"
  by (induction wc arbitrary: idx) simp_all

lemma foldl_add_posting_totalDocs [simp]:
  "totalDocs (foldl (add_posting p) idx wc) = totalDocs idx"
  by (induction wc arbitrary: idx) simp_all

lemma addDocument_documents:
  "documents (addDocument p f t m e idx) =
     put p \<lparr>filename = f, content = take 10000 t, modified = m, size_chars = length t,
             extension = e, wordCount = length (tokenize t),
             uniqueWords = length (wordCounts (tokenize t))\<rparr> (documents idx)"
  by (simp add: addDocument_def Let_def)

lemma addDocument_totalDocs: "totalDocs (addDocument p f t m e idx) = totalDocs idx + 1"
  by (simp add: addDocument_def Let_def)

subsection \<open>Removing a document\<close>

lemma remove_posting_documents [simp]: "documents (remove_posting p idx e) = documents idx"
  by (cases e) (simp add: remove_posting_def Let_def)

lemma remove_posting_totalDocs [simp]: "totalDocs (remove_posting p idx e) = totalDocs idx"
  by (cases e) (simp add: remove_posting_def Let_def)

lemma foldl_remove_posting_documents [simp]:
  "documents (foldl (remove_posting p) idx es) = documents idx"
  by (induction es arbitrary: idx) simp_all

lemma foldl_remove_posting_totalDocs [simp]:
  "totalDocs (foldl (remove_posting p) idx es) = totalDocs idx"
  by (induction es arbitrary: idx) simp_all

lemma removeDocument_documents:
  "documents (removeDocument p idx) = AList.delete p (documents idx)"
  by (auto simp: removeDocument_def Let_def js_get_def AList.delete_id map_of_eq_None_iff
        split: read.splits option.splits if_splits)

lemma removeDocument_totalDocs:
  "totalDocs (removeDocument p idx) =
     (if js_get (documents idx) p = Undefined then totalDocs idx else totalDocs idx - 1)"
  by (simp add: removeDocument_def Let_def split: read.splits)

subsection \<open>The document counter\<close>

lemma addDocument_docs_ok:
  "docs_ok idx \<Longrightarrow> map_of (documents idx) p = None \<Longrightarrow> docs_ok (addDocument p f t m e idx)"
  by (simp add: docs_ok_def totalDocs_inv_def addDocument_documents addDocument_totalDocs
        distinct_put length_put_new)

lemma removeDocument_docs_ok:
  assumes "docs_ok idx" and "map_of (documents idx) p \<noteq> None \<or> \<not> inherited p"
  shows "docs_ok (removeDocument p idx)"
proof (cases "map_of (documents idx) p")
  case None
  with assms have "js_get (documents idx) p = Undefined"
    by (simp add: js_get_def)
  with assms show ?thesis by (simp add: removeDocument_def)
next
  case (Some doc)
  with assms have "Suc (length (AList.delete p (documents idx))) = length (documents idx)"
    by (simp add: docs_ok_def length_delete_present)
  moreover from Some have "js_get (documents idx) p \<noteq> Undefined"
    by (simp add: js_get_def)
  ultimately show ?thesis
    using assms
    by (simp add: docs_ok_def totalDocs_inv_def removeDocument_documents
          removeDocument_totalDocs distinct_delete)
qed

lemma removeDocument_absent: "map_of (documents (removeDocument p idx)) p = None"
  by (simp add: removeDocument_documents delete_conv')

lemma walkFile_docs_ok:
  assumes "docs_ok (idx_of w)" and "\<not> inherited (path_join cur name)"
  shows "docs_ok (idx_of (walkFile cwd ig dirPath cur name stat rd w))"
proof -
  have 1: "docs_ok (addDocument (path_join cur name) f t m e
             (removeDocument (path_join cur name) (idx_of w)))" for f t m e
    using assms by (simp add: addDocument_docs_ok removeDocument_docs_ok removeDocument_absent)
  have 2: "docs_ok (addDocument (path_join cur name) f t m e (idx_of w))"
    if "js_get (documents (idx_of w)) (path_join cur name) = Undefined" for f t m e
    using assms that by (simp add: addDocument_docs_ok js_get_Undefined)
  show ?thesis
    using assms 1 2
    by (auto simp: walkFile_def Let_def split: io.splits read.splits prod.splits)
qed

lemma walkDir_docs_ok:
  "docs_ok (idx_of w) \<Longrightarrow> isAbsolute cur \<Longrightarrow>
   docs_ok (idx_of (walkDir cwd ig dirPath cur entries w))"
proof (induction cwd ig dirPath cur entries w rule: walkDir.induct)
  case (1 cwd ig dirPath currentPath w)
  then show ?case by simp
next
  case (2 cwd ig dirPath currentPath name sub entries w)
  then show ?case
    by (auto simp: Let_def isAbsolute_path_join split: io.splits)
next
  case (3 cwd ig dirPath currentPath name stat rd entries w)
  then show ?case
    by (simp add: walkFile_docs_ok path_like_not_inherited isAbsolute_path_like
          isAbsolute_path_join)
next
  case (4 cwd ig dirPath currentPath name entries w)
  then show ?case by simp
qed

lemma foldl_removeDocument_docs_ok:
  "docs_ok idx \<Longrightarrow> \<forall>p \<in> set ps. \<not> inherited p \<Longrightarrow>
   docs_ok (foldl (\<lambda>i p. removeDocument p i) idx ps)"
  by (induction ps arbitrary: idx) (simp_all add: removeDocument_docs_ok)

lemma prefix_isAbsolute: "isAbsolute d \<Longrightarrow> prefix d p \<Longrightarrow> isAbsolute p"
  by (cases d) (auto simp: isAbsolute_def prefix_def)

lemma forceRemove_docs_ok:
  "docs_ok idx \<Longrightarrow> isAbsolute dirPath \<Longrightarrow> docs_ok (forceRemove dirPath idx)"
  unfolding forceRemove_def Let_def
  by (rule foldl_removeDocument_docs_ok)
     (auto dest: prefix_isAbsolute isAbsolute_path_like path_like_not_inherited)

lemma docs_ok_lastUpdated_update: "docs_ok (idx\<lparr>lastUpdated := t\<rparr>) = docs_ok idx"
  by (simp add: docs_ok_def totalDocs_inv_def)

lemma indexDirectory_docs_ok:
  "docs_ok idx \<Longrightarrow> isAbsolute dirPath \<Longrightarrow>
   docs_ok (fst (indexDirectory world dirPath force idx))"
  by (auto simp: indexDirectory_def Let_def forceRemove_docs_ok walkDir_docs_ok
        docs_ok_lastUpdated_update split: io.splits)

lemma update_entry_docs_ok:
  "docs_ok (fst st) \<Longrightarrow> \<not> inherited (fst e) \<Longrightarrow> docs_ok (fst (update_entry disk st e))"
  by (cases st; cases e)
     (auto simp: update_entry_def addDocument_docs_ok removeDocument_docs_ok
        removeDocument_absent split: fsentry.splits io.splits)

lemma foldl_update_entry_docs_ok:
  "docs_ok (fst st) \<Longrightarrow> \<forall>e \<in> set es. \<not> inherited (fst e) \<Longrightarrow>
   docs_ok (fst (foldl (update_entry disk) st es))"
  by (induction es arbitrary: st) (simp_all add: update_entry_docs_ok)

lemma update_docs_ok:
  assumes "docs_ok idx" and "\<forall>q \<in> set (map fst (documents idx)). path_like q"
  shows "docs_ok (fst (update disk saveFails idx))"
proof -
  from assms(2) have "\<forall>e \<in> set (documents idx). \<not> inherited (fst e)"
    by (auto simp: path_like_not_inherited)
  with assms(1) foldl_update_entry_docs_ok
         [of "(idx, \<lparr>added = 0, removed = 0, modified' = 0\<rparr>)" "documents idx" disk]
  show ?thesis
    by (auto simp: update_def split: prod.splits)
qed

subsection \<open>The example states\<close>

lemma tok_a: "tokenize ''apple banana apple'' = [''apple'', ''banana'', ''apple'']"
  by code_simp
lemma tok_b: "tokenize ''banana cherry'' = [''banana'', ''cherry'']"
  by code_simp

lemmas eval_defs = addDocument_def removeDocument_def wordCounts_def count_token_def
  add_posting_def remove_posting_def createEmptyIndex_def js_get_def js_set_def put_def
  inherited_def Object_prototype_members_def is_index_def isDigit_def Let_def

lemma index_a_value:
  "index_a =
     \<lparr>version = 1,
      documents = [(''a.txt'', \<lparr>filename = ''a.txt'', content = ''apple banana apple'',
         modified = 1, size_chars = 18, extension = ''txt'', wordCount = 3, uniqueWords = 2\<rparr>)],
      invertedIndex = [(''apple'', [(''a.txt'', Count 2)]), (''banana'', [(''a.txt'', Count 1)])],
      docFreq = [(''apple'', Num 1), (''banana'', Num 1)],
      totalDocs = 1, lastUpdated = None\<rparr>"
  unfolding index_a_def by (simp add: eval_defs tok_a)

lemma index_ab_value:
  "index_ab =
     \<lparr>version = 1,
      documents =
        [(''a.txt'', \<lparr>filename = ''a.txt'', content = ''apple banana apple'',
           modified = 1, size_chars = 18, extension = ''txt'', wordCount = 3, uniqueWords = 2\<rparr>),
         (''b.txt'', \<lparr>filename = ''b.txt'', content = ''banana cherry'',
           modified = 2, size_chars = 13, extension = ''txt'', wordCount = 2, uniqueWords = 2\<rparr>)],
      invertedIndex =
        [(''apple'', [(''a.txt'', Count 2)]),
         (''banana'', [(''a.txt'', Count 1), (''b.txt'', Count 1)]),
         (''cherry'', [(''b.txt'', Count 1)])],
      docFreq = [(''apple'', Num 1), (''banana'', Num 2), (''cherry'', Num 1)],
      totalDocs = 2, lastUpdated = None\<rparr>"
  unfolding index_ab_def index_a_value by (simp add: eval_defs tok_b)

lemma index_ba_value:
  "index_ba =
     \<lparr>version = 1,
      documents =
        [(''b.txt'', \<lparr>filename = ''b.txt'', content = ''banana cherry'',
           modified = 2, size_chars = 13, extension = ''txt'', wordCount = 2, uniqueWords = 2\<rparr>),
         (''a.txt'', \<lparr>filename = ''a.txt'', content = ''apple banana apple'',
           modified = 1, size_chars = 18, extension = ''txt'', wordCount = 3, uniqueWords = 2\<rparr>)],
      invertedIndex =
        [(''banana'', [(''b.txt'', Count 1), (''a.txt'', Count 1)]),
         (''cherry'', [(''b.txt'', Count 1)]),
         (''apple'', [(''a.txt'', Count 2)])],
      docFreq = [(''banana'', Num 2), (''cherry'', Num 1), (''apple'', Num 1)],
      totalDocs = 2, lastUpdated = None\<rparr>"
  unfolding index_ba_def by (simp add: eval_defs tok_a tok_b)

lemma tok_src:
  "tokenize ''class SearchEngine { constructor() { } }'' =
     [''class'', ''searchengine'', ''constructor'']"
  by code_simp

lemma index_src_value:
  "index_src =
     \<lparr>version = 1,
      documents = [(''/r/engine.js'', \<lparr>filename = ''engine.js'',
         content = ''class SearchEngine { constructor() { } }'',
         modified = 1, size_chars = 40, extension = ''js'', wordCount = 3, uniqueWords = 3\<rparr>)],
      invertedIndex =
        [(''class'', [(''/r/engine.js'', Count 1)]),
         (''searchengine'', [(''/r/engine.js'', Count 1)])],
      docFreq = [(''class'', Num 1), (''searchengine'', Num 1), (''constructor'', NaN)],
      totalDocs = 1, lastUpdated = None\<rparr>"
  unfolding index_src_def by (simp add: eval_defs tok_src)

lemma loadIgnorePatterns_none: "loadIgnorePatterns None None = Returns default_patterns"
  by code_simp

lemma walkFile_raised [simp]: "raised (walkFile cwd ig dirPath cur name stat rd w) = raised w"
  by (auto simp: walkFile_def Let_def split: io.splits read.splits prod.splits)

lemma split_ws_ne: "split_ws s \<noteq> []"
  by (induction s rule: split_ws.induct) (auto split: list.splits)

lemma split_ws_hd: "hd (split_ws s) = takeWhile (\<lambda>c. \<not> isSpace c) s"
  using split_ws_ne by (induction s rule: split_ws.induct) (auto split: list.splits)

lemma maximal_runs_drop: "maximal_runs P (dropWhile (\<lambda>c. \<not> P c) s) = maximal_runs P s"
  by (induction s) auto

lemma maximal_runs_decomp:
  "maximal_runs P s =
     (if takeWhile P s = [] then [] else [takeWhile P s]) @ maximal_runs P (dropWhile P s)"
  by (cases s) auto

lemma split_ws_runs:
  "filter (\<lambda>w. w \<noteq> []) (split_ws s) = maximal_runs (\<lambda>c. \<not> isSpace c) s"
proof (induction s rule: split_ws.induct)
  case 1
  show ?case by simp
next
  case (2 c cs)
  let ?NS = "\<lambda>c. \<not> isSpace c"
  show ?case
  proof (cases "isSpace c")
    case True
    have "filter (\<lambda>w. w \<noteq> []) (split_ws (c # cs)) =
          filter (\<lambda>w. w \<noteq> []) (split_ws (dropWhile isSpace cs))"
      using True by simp
    also have "\<dots> = maximal_runs ?NS (dropWhile isSpace cs)"
      using 2(1) True by simp
    also have "\<dots> = maximal_runs ?NS cs"
      using maximal_runs_drop [of ?NS cs] by simp
    also have "\<dots> = maximal_runs ?NS (c # cs)"
      using True by simp
    finally show ?thesis .
  next
    case False
    obtain w ws where sp: "split_ws cs = w # ws"
      using split_ws_ne [of cs] by (cases "split_ws cs") auto
    have w: "w = takeWhile ?NS cs"
      using split_ws_hd [of cs] sp by simp
    have ih: "filter (\<lambda>w. w \<noteq> []) (w # ws) = maximal_runs ?NS cs"
      using 2(2) False sp by simp
    have dec: "maximal_runs ?NS cs =
        (if w = [] then [] else [w]) @ maximal_runs ?NS (dropWhile ?NS cs)"
      unfolding w by (rule maximal_runs_decomp)
    have rest: "filter (\<lambda>w. w \<noteq> []) ws = maximal_runs ?NS (dropWhile ?NS cs)"
      using ih dec by (cases "w = []") simp_all
    have "split_ws (c # cs) = (c # w) # ws"
      using False sp by simp
    moreover have "maximal_runs ?NS (c # cs) = (c # w) # maximal_runs ?NS (dropWhile ?NS cs)"
      using False w by simp
    ultimately show ?thesis
      using rest by simp
  qed
qed

lemma maximal_runs_map:
  assumes "\<And>c. Q (f c) = P c" and "\<And>c. P c \<Longrightarrow> f c = c"
  shows "maximal_runs Q (map f s) = maximal_runs P s"
proof (induction "length s" arbitrary: s rule: less_induct)
  case less
  show ?case
  proof (cases s)
    case Nil
    then show ?thesis by simp
  next
    case (Cons c cs)
    have tw: "takeWhile Q (map f cs) = takeWhile P cs"
      using assms by (induction cs) auto
    have dw: "dropWhile Q (map f cs) = map f (dropWhile P cs)"
      using assms by (induction cs) auto
    have len: "length (dropWhile P cs) < length s" "length cs < length s"
      using Cons length_dropWhile_le [of P cs] by (simp_all add: less_Suc_eq_le)
    show ?thesis
    proof (cases "P c")
      case True
      then have "f c = c" and "Q c"
        using assms by (simp, metis)
      with True show ?thesis
        using Cons tw dw less [OF len(1)] by simp
    next
      case False
      then show ?thesis
        using Cons assms less [OF len(2)] by simp
    qed
  qed
qed

text \<open>
  \<open>maximal_runs\<close> is what its name says. A stretch without any character of the class
  yields no run; a non-empty stretch of characters of the class that is followed by the
  end or by a character outside the class is the first run; and the runs of a text that
  is cut behind a character outside the class are the runs of the two parts.
\<close>

lemma maximal_runs_none: "\<forall>c \<in> set s. \<not> P c \<Longrightarrow> maximal_runs P s = []"
  by (induction s) auto

lemma maximal_runs_first:
  assumes "r \<noteq> []" and "\<forall>c \<in> set r. P c" and "b = [] \<or> \<not> P (hd b)"
  shows "maximal_runs P (r @ b) = r # maximal_runs P b"
proof -
  obtain c cs where r: "r = c # cs"
    using assms(1) by (cases r) auto
  have tw: "takeWhile P (cs @ b) = cs"
    using assms r by (cases b) (auto simp: takeWhile_append2 takeWhile_tail)
  have dw: "dropWhile P (cs @ b) = b"
    using assms r by (cases b) (auto simp: dropWhile_append2 dropWhile_append3)
  show ?thesis
    using assms r tw dw by simp
qed

lemma maximal_runs_append:
  assumes "a = [] \<or> \<not> P (last a)"
  shows "maximal_runs P (a @ s) = maximal_runs P a @ maximal_runs P s"
  using assms
proof (induction "length a" arbitrary: a rule: less_induct)
  case less
  show ?case
  proof (cases a)
    case Nil
    then show ?thesis by simp
  next
    case (Cons c cs)
    show ?thesis
    proof (cases "P c")
      case False
      have "cs = [] \<or> \<not> P (last cs)"
        using less.prems Cons by (cases cs) auto
      with less.hyps [of cs] Cons False show ?thesis by simp
    next
      case True
      let ?d = "dropWhile P cs"
      have ne: "?d \<noteq> []"
      proof
        assume "?d = []"
        then have "\<forall>x \<in> set cs. P x"
          by (simp add: dropWhile_eq_Nil_conv)
        with True Cons have "P (last a)"
          by (cases cs) auto
        with less.prems Cons show False by simp
      qed
      then have ex: "\<exists>x \<in> set cs. \<not> P x"
        by (auto simp: dropWhile_eq_Nil_conv)
      have last_d: "\<not> P (last ?d)"
      proof -
        have "last ?d = last cs"
          using ne by (metis last_appendR takeWhile_dropWhile_id)
        moreover have "cs \<noteq> []" using ne by auto
        ultimately show ?thesis
          using less.prems Cons by simp
      qed
      have len: "length ?d < length a"
        using Cons length_dropWhile_le [of P cs] by (simp add: less_Suc_eq_le)
      have tw: "takeWhile P (cs @ s) = takeWhile P cs"
        using ex by (auto simp: takeWhile_append1)
      have dw: "dropWhile P (cs @ s) = ?d @ s"
        using ex by (auto simp: dropWhile_append1)
      from less.hyps [OF len] last_d
      have "maximal_runs P (?d @ s) = maximal_runs P ?d @ maximal_runs P s"
        by simp
      with Cons True tw dw show ?thesis by simp
    qed
  qed
qed

lemma wordChar_not_space: "isWordChar c \<Longrightarrow> \<not> isSpace c"
  by (auto simp: isWordChar_def isSpace_def)

lemma tokenize_runs:
  "tokenize text =
     filter (\<lambda>w. 2 \<le> length w \<and> length w \<le> 50) (maximal_runs isWordChar (toLowerCase text))"
proof -
  let ?f = "\<lambda>c. if isWordChar c \<or> isSpace c then c else CHR 0x20"
  let ?ok = "\<lambda>w::string. 2 \<le> length w \<and> length w \<le> 50"
  have sp: "isSpace (CHR 0x20)"
    by (simp add: isSpace_def)
  have "filter ?ok (split_ws s) = filter ?ok (filter (\<lambda>w. w \<noteq> []) (split_ws s))" for s
    by (auto intro: filter_cong)
  then have "tokenize text = filter ?ok (maximal_runs (\<lambda>c. \<not> isSpace c) (map ?f (toLowerCase text)))"
    by (simp add: tokenize_def split_ws_runs)
  also have "maximal_runs (\<lambda>c. \<not> isSpace c) (map ?f (toLowerCase text)) =
      maximal_runs isWordChar (toLowerCase text)"
    by (rule maximal_runs_map) (use sp wordChar_not_space in auto)
  finally show ?thesis .
qed

lemma add_posting_documents_update:
  "add_posting p (idx\<lparr>documents := d\<rparr>) e = (add_posting p idx e)\<lparr>documents := d\<rparr>"
  by (cases e) (simp add: add_posting_def Let_def split: read.splits)

lemma foldl_add_posting_documents_update:
  "foldl (add_posting p) (idx\<lparr>documents := d\<rparr>) wc = (foldl (add_posting p) idx wc)\<lparr>documents := d\<rparr>"
  by (induction wc arbitrary: idx) (simp_all add: add_posting_documents_update)

lemma addDocument_invertedIndex:
  "invertedIndex (addDocument p f t m e idx) =
     invertedIndex (foldl (add_posting p) idx (wordCounts (tokenize t)))"
  by (simp add: addDocument_def Let_def foldl_add_posting_documents_update)

lemma addDocument_docFreq:
  "docFreq (addDocument p f t m e idx) =
     docFreq (foldl (add_posting p) idx (wordCounts (tokenize t)))"
  by (simp add: addDocument_def Let_def foldl_add_posting_documents_update)

section \<open>The claims\<close>

subsection \<open>C1: document frequencies and posting maps\<close>

text \<open>
  C1 at a failing input. The empty index satisfies the invariant. Add one file to it
  whose text has the word \<open>constructor\<close>, as \<open>engine.js\<close> itself has. In \<open>addDocument\<close>,
  \<open>wordCounts["constructor"]\<close> first reads the inherited function \<open>Object\<close>, so the count
  that is stored is a string. In the loop over the counts, \<open>invertedIndex["constructor"]\<close>
  reads that function too: it is truthy, so no posting map is created and \<open>docFreq\<close> gets
  no 0; the test \<open>!invertedIndex[word][filePath]\<close> finds nothing on the function, and
  \<open>docFreq["constructor"]++\<close> stores \<open>NaN\<close>. The count is written onto the function, not
  into the index. Afterwards \<open>docFreq\<close> has the key \<open>constructor\<close>, with the value \<open>NaN\<close>,
  and \<open>invertedIndex\<close> has no such key. \<open>indexDirectory\<close> on a directory with this file
  leaves the same state.

  The reads in \<open>removeDocument\<close> have the same defect. In the index of the two example
  files the invariant holds; \<open>removeDocument("toString")\<close> does not return early, finds
  \<open>docs["toString"]\<close> in every posting map, and decrements every \<open>docFreq\<close>: the terms
  \<open>apple\<close> and \<open>cherry\<close> are deleted with their postings, and \<open>banana\<close> is left with
  \<open>docFreq\<close> 1 and two postings.
\<close>

theorem constructor_token_breaks_postings:
  "postings_inv createEmptyIndex \<and>
   invertedIndex index_src =
     [(''class'', [(''/r/engine.js'', Count 1)]),
      (''searchengine'', [(''/r/engine.js'', Count 1)])] \<and>
   docFreq index_src = [(''class'', Num 1), (''searchengine'', Num 1), (''constructor'', NaN)] \<and>
   \<not> postings_inv index_src \<and>
   fst (indexDirectory world_src ''/r'' False createEmptyIndex) =
     index_src\<lparr>lastUpdated := Some ''2026-02-16T00:00:00.000Z''\<rparr> \<and>
   \<not> postings_inv (fst (indexDirectory world_src ''/r'' False createEmptyIndex)) \<and>
   postings_inv index_ab \<and>
   invertedIndex (removeDocument ''toString'' index_ab) =
     [(''banana'', [(''a.txt'', Count 1), (''b.txt'', Count 1)])] \<and>
   docFreq (removeDocument ''toString'' index_ab) = [(''banana'', Num 1)] \<and>
   \<not> postings_inv (removeDocument ''toString'' index_ab)"
proof -
  have 1: "postings_inv createEmptyIndex"
    by (simp add: postings_inv_def createEmptyIndex_def)
  have 2: "invertedIndex index_src =
     [(''class'', [(''/r/engine.js'', Count 1)]),
      (''searchengine'', [(''/r/engine.js'', Count 1)])]"
    "docFreq index_src = [(''class'', Num 1), (''searchengine'', Num 1), (''constructor'', NaN)]"
    unfolding index_src_value by simp_all
  have "''constructor'' \<in> set (map fst (docFreq index_src))"
    "''constructor'' \<notin> set (map fst (invertedIndex index_src))"
    unfolding 2 by simp_all
  then have "set (map fst (docFreq index_src)) \<noteq> set (map fst (invertedIndex index_src))"
    by blast
  then have n: "\<not> postings_inv index_src"
    by (simp add: postings_inv_def)
  have j: "path_join ''/r'' ''engine.js'' = ''/r/engine.js''"
    by code_simp
  have r: "\<not> ignores default_patterns (path_relative ''/'' ''/r'' ''/r/engine.js'')"
    by code_simp
  have b: "\<not> isBinaryFile ''/r/engine.js''" "extension_of ''/r/engine.js'' = ''js''"
    by code_simp+
  have "fst (indexDirectory world_src ''/r'' False createEmptyIndex) =
     (addDocument ''/r/engine.js'' ''engine.js'' ''class SearchEngine { constructor() { } }'' 1
        ''js'' createEmptyIndex)\<lparr>lastUpdated := Some ''2026-02-16T00:00:00.000Z''\<rparr>"
    by (simp add: indexDirectory_def world_src_def loadIgnorePatterns_none walkFile_def
          j r b MAX_FILE_SIZE_def Let_def js_get_def inherited_def
          Object_prototype_members_def createEmptyIndex_def)
  then have 3: "fst (indexDirectory world_src ''/r'' False createEmptyIndex) =
     index_src\<lparr>lastUpdated := Some ''2026-02-16T00:00:00.000Z''\<rparr>"
    by (simp add: index_src_def)
  have 4: "\<not> postings_inv (fst (indexDirectory world_src ''/r'' False createEmptyIndex))"
    unfolding 3 using n by (simp add: postings_inv_def)
  have 5: "postings_inv index_ab"
    unfolding index_ab_value by (simp add: postings_inv_def)
  have 6: "removeDocument ''toString'' index_ab =
     \<lparr>version = 1,
      documents =
        [(''a.txt'', \<lparr>filename = ''a.txt'', content = ''apple banana apple'',
           modified = 1, size_chars = 18, extension = ''txt'', wordCount = 3, uniqueWords = 2\<rparr>),
         (''b.txt'', \<lparr>filename = ''b.txt'', content = ''banana cherry'',
           modified = 2, size_chars = 13, extension = ''txt'', wordCount = 2, uniqueWords = 2\<rparr>)],
      invertedIndex = [(''banana'', [(''a.txt'', Count 1), (''b.txt'', Count 1)])],
      docFreq = [(''banana'', Num 1)],
      totalDocs = 1, lastUpdated = None\<rparr>"
    unfolding index_ab_value by (simp add: eval_defs)
  have 7: "invertedIndex (removeDocument ''toString'' index_ab) =
     [(''banana'', [(''a.txt'', Count 1), (''b.txt'', Count 1)])]"
    "docFreq (removeDocument ''toString'' index_ab) = [(''banana'', Num 1)]"
    "\<not> postings_inv (removeDocument ''toString'' index_ab)"
    unfolding 6 by (simp_all add: postings_inv_def)
  from 1 2 n 3 4 5 7 show ?thesis by blast
qed

subsection \<open>C2: the document counter\<close>

text \<open>
  C2, as stated, fails for \<open>addDocument\<close>: called for a path that is already stored, it
  overwrites the record and still increments \<open>totalDocs\<close>.
\<close>

theorem totalDocs_counterexample:
  "totalDocs_inv index_a \<and>
   \<not> totalDocs_inv (addDocument ''a.txt'' ''a.txt'' ''apple banana apple'' 1 ''txt'' index_a)"
  unfolding index_a_value by (simp add: totalDocs_inv_def eval_defs tok_a)

text \<open>
  The counter also goes wrong where \<open>documents[filePath]\<close> reads an inherited member:
  \<open>removeDocument("toString")\<close> removes no document and still decrements \<open>totalDocs\<close>. The
  crawl meets such a path only when it is started on a relative directory path
  (\<open>path.join(".", "toString")\<close> is \<open>toString\<close>); the command line passes a resolved path.
\<close>

lemma removeDocument_inherited_path:
  "map fst (documents (removeDocument ''toString'' index_ab)) = [''a.txt'', ''b.txt''] \<and>
   totalDocs (removeDocument ''toString'' index_ab) = 1"
  unfolding index_ab_value by (simp add: eval_defs)

text \<open>
  C2, amended: starting from any state in which \<open>documents\<close> lists each path once and
  \<open>totalDocs\<close> equals the number of its entries, this holds again
  after \<open>addDocument\<close> for a path that is not yet stored,
  after \<open>removeDocument\<close> for a path that is stored or names no inherited member,
  after \<open>indexDirectory\<close> for an absolute directory path, and
  after \<open>update\<close>
  (the last two remove a stored path before they add it again), where the paths added and
  the paths stored are file paths: they have a slash or a dot in them, as every absolute
  path has. What happens for the other paths is left open.
\<close>

theorem totalDocs_preserved:
  assumes "distinct (map fst (documents idx))" and "totalDocs_inv idx"
  shows "(map_of (documents idx) p = None \<and> path_like p \<longrightarrow>
            docs_ok (addDocument p f t m e idx)) \<and>
         (map_of (documents idx) q \<noteq> None \<or> \<not> inherited q \<longrightarrow>
            docs_ok (removeDocument q idx)) \<and>
         (isAbsolute dirPath \<longrightarrow> docs_ok (fst (indexDirectory world dirPath force idx))) \<and>
         ((\<forall>s \<in> set (map fst (documents idx)). path_like s) \<longrightarrow>
            docs_ok (fst (update disk saveFails idx)))"
proof -
  from assms have "docs_ok idx" by (simp add: docs_ok_def)
  then show ?thesis
    by (simp add: addDocument_docs_ok removeDocument_docs_ok indexDirectory_docs_ok
          update_docs_ok)
qed

text \<open>
  C2, witness: the index of the two example files satisfies the hypotheses, \<open>c.txt\<close> is
  not stored in it, \<open>/r\<close> is absolute, and the counter is right after each of the four
  operations.
\<close>

theorem totalDocs_witness:
  "distinct (map fst (documents index_ab)) \<and> totalDocs_inv index_ab \<and>
   map_of (documents index_ab) ''c.txt'' = None \<and> path_like ''c.txt'' \<and>
   map_of (documents index_ab) ''a.txt'' \<noteq> None \<and> isAbsolute ''/r'' \<and>
   list_all path_like (map fst (documents index_ab)) \<and>
   totalDocs_inv (addDocument ''c.txt'' ''c.txt'' ''cherry date'' 3 ''txt'' index_ab) \<and>
   totalDocs_inv (removeDocument ''a.txt'' index_ab) \<and>
   totalDocs_inv (fst (indexDirectory world_r ''/r'' True index_ab)) \<and>
   totalDocs_inv (fst (update disk_b False index_ab))"
proof -
  have h: "distinct (map fst (documents index_ab))" "totalDocs_inv index_ab"
    and n: "map_of (documents index_ab) ''c.txt'' = None" "path_like ''c.txt''"
      "map_of (documents index_ab) ''a.txt'' \<noteq> None" "isAbsolute ''/r''"
      "list_all path_like (map fst (documents index_ab))"
    unfolding index_ab_value by (simp_all add: totalDocs_inv_def path_like_def isAbsolute_def)
  from n(5) have a: "\<forall>s \<in> set (map fst (documents index_ab)). path_like s"
    by (simp add: list_all_iff)
  from totalDocs_preserved [OF h, of "''c.txt''" "''c.txt''" "''cherry date''" 3 "''txt''"
      "''a.txt''" "''/r''" world_r True disk_b False]
  show ?thesis using h n a by (simp add: docs_ok_def)
qed

subsection \<open>C3: the scenario of two files\<close>

lemma tok_apple: "tokenize ''apple'' = [''apple'']"
  by code_simp

lemma tok_banana: "tokenize ''banana'' = [''banana'']"
  by code_simp

lemma preview_a_apple:
  "extractPreview ''apple banana apple'' [''apple''] = ''apple banana apple''"
  by code_simp

lemma preview_a_banana:
  "extractPreview ''apple banana apple'' [''banana''] = ''apple banana apple''"
  by code_simp

lemma preview_b_banana: "extractPreview ''banana cherry'' [''banana''] = ''banana cherry''"
  by code_simp

lemmas search_defs = search_def idf_of_def idf_def tf_def slice0_def js_get_def put_def
  inherited_def Object_prototype_members_def is_index_def isDigit_def

text \<open>
  C3: index \<open>a.txt\<close> = "apple banana apple" and \<open>b.txt\<close> = "banana cherry", in either
  order. The index then holds exactly these two documents, with \<open>wordCount\<close> 3 and 2,
  \<open>docFreq["apple"]\<close> = 1 and \<open>docFreq["banana"]\<close> = 2. The query "apple" returns exactly
  one result, \<open>a.txt\<close>, with score \<open>(2/3) * (ln(3/2) + 1)\<close>; the query "banana" returns
  exactly two results, \<open>b.txt\<close> with score 1/2 before \<open>a.txt\<close> with score 1/3.
  Scores are real numbers here.
\<close>

theorem scenario_two_files:
  "map (\<lambda>e. (fst e, wordCount (snd e))) (documents index_ab) = [(''a.txt'', 3), (''b.txt'', 2)] \<and>
   map (\<lambda>e. (fst e, wordCount (snd e))) (documents index_ba) = [(''b.txt'', 2), (''a.txt'', 3)] \<and>
   map_of (docFreq index_ab) ''apple'' = Some (Num 1) \<and>
   map_of (docFreq index_ab) ''banana'' = Some (Num 2) \<and>
   map_of (docFreq index_ba) ''apple'' = Some (Num 1) \<and>
   map_of (docFreq index_ba) ''banana'' = Some (Num 2) \<and>
   search index_ab ''apple'' [] 20 =
     Inr [\<lparr>path = ''a.txt'', fname = ''a.txt'', score = (2 / 3) * (ln (3 / 2) + 1),
           preview = ''apple banana apple''\<rparr>] \<and>
   search index_ba ''apple'' [] 20 =
     Inr [\<lparr>path = ''a.txt'', fname = ''a.txt'', score = (2 / 3) * (ln (3 / 2) + 1),
           preview = ''apple banana apple''\<rparr>] \<and>
   search index_ab ''banana'' [] 20 =
     Inr [\<lparr>path = ''b.txt'', fname = ''b.txt'', score = 1 / 2, preview = ''banana cherry''\<rparr>,
          \<lparr>path = ''a.txt'', fname = ''a.txt'', score = 1 / 3,
           preview = ''apple banana apple''\<rparr>] \<and>
   search index_ba ''banana'' [] 20 =
     Inr [\<lparr>path = ''b.txt'', fname = ''b.txt'', score = 1 / 2, preview = ''banana cherry''\<rparr>,
          \<lparr>path = ''a.txt'', fname = ''a.txt'', score = 1 / 3,
           preview = ''apple banana apple''\<rparr>]"
proof -
  have 1: "search index_ab ''apple'' [] 20 =
     Inr [\<lparr>path = ''a.txt'', fname = ''a.txt'', score = (2 / 3) * (ln (3 / 2) + 1),
           preview = ''apple banana apple''\<rparr>]"
    unfolding index_ab_value by (simp add: search_defs tok_apple preview_a_apple)
  have 2: "search index_ba ''apple'' [] 20 =
     Inr [\<lparr>path = ''a.txt'', fname = ''a.txt'', score = (2 / 3) * (ln (3 / 2) + 1),
           preview = ''apple banana apple''\<rparr>]"
    unfolding index_ba_value by (simp add: search_defs tok_apple preview_a_apple)
  have 3: "search index_ab ''banana'' [] 20 =
     Inr [\<lparr>path = ''b.txt'', fname = ''b.txt'', score = 1 / 2, preview = ''banana cherry''\<rparr>,
          \<lparr>path = ''a.txt'', fname = ''a.txt'', score = 1 / 3,
           preview = ''apple banana apple''\<rparr>]"
    unfolding index_ab_value
    by (simp add: search_defs tok_banana preview_a_banana preview_b_banana)
  have 4: "search index_ba ''banana'' [] 20 =
     Inr [\<lparr>path = ''b.txt'', fname = ''b.txt'', score = 1 / 2, preview = ''banana cherry''\<rparr>,
          \<lparr>path = ''a.txt'', fname = ''a.txt'', score = 1 / 3,
           preview = ''apple banana apple''\<rparr>]"
    unfolding index_ba_value
    by (simp add: search_defs tok_banana preview_a_banana preview_b_banana)
  have 5: "map (\<lambda>e. (fst e, wordCount (snd e))) (documents index_ab) = [(''a.txt'', 3), (''b.txt'', 2)]"
    "map_of (docFreq index_ab) ''apple'' = Some (Num 1)"
    "map_of (docFreq index_ab) ''banana'' = Some (Num 2)"
    unfolding index_ab_value by simp_all
  have 6: "map (\<lambda>e. (fst e, wordCount (snd e))) (documents index_ba) = [(''b.txt'', 2), (''a.txt'', 3)]"
    "map_of (docFreq index_ba) ''apple'' = Some (Num 1)"
    "map_of (docFreq index_ba) ''banana'' = Some (Num 2)"
    unfolding index_ba_value by simp_all
  from 1 2 3 4 5 6 show ?thesis by blast
qed

subsection \<open>C4: the tokenizer\<close>

text \<open>
  C4: for every text, \<open>tokenize\<close> returns the maximal runs of characters from
  \<open>[a-z0-9_]\<close> of the lower-cased text, in order of occurrence, those of length 2 to 50.
  It is a function of the text alone, and indexing and searching both go through it:
  \<open>addDocument\<close> stores the number of tokens as \<open>wordCount\<close>, and the postings and
  document frequencies it leaves depend on the text only through its tokens; \<open>search\<close>
  depends on the query only through its tokens, so a query that tokenizes like a text is
  answered like that text, and a query without tokens has the empty answer.
\<close>

theorem tokenizer_contract:
  "tokenize text =
     filter (\<lambda>w. 2 \<le> length w \<and> length w \<le> 50)
       (maximal_runs isWordChar (toLowerCase text)) \<and>
   map_option wordCount (map_of (documents (addDocument p f text m e idx)) p) =
     Some (length (tokenize text)) \<and>
   (tokenize query = tokenize text \<longrightarrow>
      invertedIndex (addDocument p f query m e idx) =
        invertedIndex (addDocument p f text m e idx) \<and>
      docFreq (addDocument p f query m e idx) = docFreq (addDocument p f text m e idx)) \<and>
   (tokenize query = tokenize text \<longrightarrow>
      search idx' query extensions limit = search idx' text extensions limit) \<and>
   (tokenize query = [] \<longrightarrow> search idx' query extensions limit = Inr [])"
  by (simp add: tokenize_runs [symmetric] addDocument_invertedIndex addDocument_docFreq
        addDocument_documents map_of_put search_def)

lemma tok_query: "tokenize ''APPLE, banana; apple!'' = [''apple'', ''banana'', ''apple'']"
  by code_simp

lemma tok_single: "tokenize ''a'' = []"
  by code_simp

text \<open>
  C4, witness: "APPLE, banana; apple!" has the tokens of "apple banana apple"; as a
  document it leaves the same postings, as a query it has the same answer; "a" has no
  token and the empty answer.
\<close>

theorem tokenizer_contract_witness:
  "tokenize ''APPLE, banana; apple!'' = tokenize ''apple banana apple'' \<and>
   invertedIndex
     (addDocument ''a.txt'' ''a.txt'' ''APPLE, banana; apple!'' 1 ''txt'' createEmptyIndex) =
     invertedIndex index_a \<and>
   search index_ab ''APPLE, banana; apple!'' [] 20 =
     search index_ab ''apple banana apple'' [] 20 \<and>
   tokenize ''a'' = [] \<and> search index_ab ''a'' [] 20 = Inr []"
proof -
  have s: "tokenize ''a'' = []"
    by (rule tok_single)
  then have e: "search index_ab ''a'' [] 20 = Inr []"
    using tokenizer_contract [of "''apple banana apple''" "''a.txt''" "''a.txt''" 1 "''txt''"
      createEmptyIndex "''a''" index_ab "[]" 20]
    by simp
  have h: "tokenize ''APPLE, banana; apple!'' = tokenize ''apple banana apple''"
    by (simp add: tok_a tok_query)
  from tokenizer_contract [of "''apple banana apple''" "''a.txt''" "''a.txt''" 1 "''txt''"
      createEmptyIndex "''APPLE, banana; apple!''" index_ab "[]" 20]
  show ?thesis using h s e by (simp add: index_a_def)
qed

subsection \<open>C5: files of more than 5 MB\<close>

lemma big_txt_join: "path_join ''/r'' ''big.txt'' = ''/r/big.txt''"
  by code_simp

lemma big_txt_not_ignored:
  "\<not> ignores default_patterns (path_relative ''/'' ''/r'' ''/r/big.txt'')"
  by code_simp

lemma big_txt_not_binary: "\<not> isBinaryFile ''/r/big.txt''"
  by code_simp

lemma logo_png_join: "path_join ''/r'' ''logo.png'' = ''/r/logo.png''"
  by code_simp

lemma logo_png_not_ignored:
  "\<not> ignores default_patterns (path_relative ''/'' ''/r'' ''/r/logo.png'')"
  by code_simp

lemma logo_png_binary: "isBinaryFile ''/r/logo.png''"
  by code_simp

lemma gone_txt_join: "path_join ''/r'' ''gone.txt'' = ''/r/gone.txt''"
  by code_simp

lemma gone_txt_not_ignored:
  "\<not> ignores default_patterns (path_relative ''/'' ''/r'' ''/r/gone.txt'')"
  by code_simp

lemma gone_txt_not_binary: "\<not> isBinaryFile ''/r/gone.txt''"
  by code_simp

text \<open>
  C5 at a failing input: a crawl of a directory whose only entry is a text file of
  5242881 bytes, one more than 5 MB. The file is skipped without being read and nothing
  is raised, but the branch \<open>if (stats.size > MAX_FILE_SIZE)\<close> is a bare \<open>continue\<close>: the
  three counters that \<open>indexDirectory\<close> returns are all 0, as they are for an empty
  directory, so the file is counted nowhere. The branches beside it do count: an image
  is counted in \<open>binaryFiles\<close>, and a file that \<open>statSync\<close> fails on in \<open>ignoredFiles\<close>.
\<close>

theorem oversized_file_not_counted:
  "snd (indexDirectory world_big ''/r'' False createEmptyIndex) =
     Inr \<lparr>filesIndexed = 0, binaryFiles = 0, ignoredFiles = 0, duration = 7\<rparr> \<and>
   snd (indexDirectory world_empty ''/r'' False createEmptyIndex) =
     Inr \<lparr>filesIndexed = 0, binaryFiles = 0, ignoredFiles = 0, duration = 7\<rparr> \<and>
   snd (indexDirectory world_image ''/r'' False createEmptyIndex) =
     Inr \<lparr>filesIndexed = 0, binaryFiles = 1, ignoredFiles = 0, duration = 7\<rparr> \<and>
   snd (indexDirectory world_unreadable ''/r'' False createEmptyIndex) =
     Inr \<lparr>filesIndexed = 0, binaryFiles = 0, ignoredFiles = 1, duration = 7\<rparr>"
proof -
  have 1: "snd (indexDirectory world_big ''/r'' False createEmptyIndex) =
     Inr \<lparr>filesIndexed = 0, binaryFiles = 0, ignoredFiles = 0, duration = 7\<rparr>"
    by (simp add: indexDirectory_def world_big_def loadIgnorePatterns_none walkFile_def
          big_txt_join big_txt_not_ignored big_txt_not_binary MAX_FILE_SIZE_def Let_def)
  have 2: "snd (indexDirectory world_empty ''/r'' False createEmptyIndex) =
     Inr \<lparr>filesIndexed = 0, binaryFiles = 0, ignoredFiles = 0, duration = 7\<rparr>"
    by (simp add: indexDirectory_def world_empty_def loadIgnorePatterns_none Let_def)
  have 3: "snd (indexDirectory world_image ''/r'' False createEmptyIndex) =
     Inr \<lparr>filesIndexed = 0, binaryFiles = 1, ignoredFiles = 0, duration = 7\<rparr>"
    by (simp add: indexDirectory_def world_image_def loadIgnorePatterns_none walkFile_def
          logo_png_join logo_png_not_ignored logo_png_binary Let_def)
  have 4: "snd (indexDirectory world_unreadable ''/r'' False createEmptyIndex) =
     Inr \<lparr>filesIndexed = 0, binaryFiles = 0, ignoredFiles = 1, duration = 7\<rparr>"
    by (simp add: indexDirectory_def world_unreadable_def loadIgnorePatterns_none walkFile_def
          gone_txt_join gone_txt_not_ignored gone_txt_not_binary Let_def)
  from 1 2 3 4 show ?thesis by blast
qed

text \<open>
  What the walk does with a file of more than 5 MB, whatever the file and the state: it
  does not read it (the walk is the same whatever \<open>readFileSync\<close> would give), it leaves
  the index and \<open>filesIndexed\<close> as they are and raises nothing, and it goes on with the
  next entry. A counter changes only if the ignore matcher or the binary-extension check
  excludes the file first; otherwise the whole operation returns what it returns for the
  directory without that file.
\<close>

lemma oversized_file_skipped:
  assumes "MAX_FILE_SIZE < sz"
  shows "walkFile cwd ig dirPath cur name (Returns (sz, mtime)) rd w =
           walkFile cwd ig dirPath cur name (Returns (sz, mtime)) rd' w \<and>
         idx_of (walkFile cwd ig dirPath cur name (Returns (sz, mtime)) rd w) = idx_of w \<and>
         filesIndexed (counts (walkFile cwd ig dirPath cur name (Returns (sz, mtime)) rd w)) =
           filesIndexed (counts w) \<and>
         raised (walkFile cwd ig dirPath cur name (Returns (sz, mtime)) rd w) = raised w \<and>
         (\<not> ig (path_relative cwd dirPath (path_join cur name)) \<and>
          \<not> isBinaryFile (path_join cur name) \<longrightarrow>
            walkFile cwd ig dirPath cur name (Returns (sz, mtime)) rd w = w) \<and>
         walkDir cwd ig dirPath cur (File name (Returns (sz, mtime)) rd # entries) w =
           walkDir cwd ig dirPath cur entries
             (walkFile cwd ig dirPath cur name (Returns (sz, mtime)) rd' w) \<and>
         (root world = Returns (File name (Returns (sz, mtime)) rd # entries) \<and>
          loadIgnorePatterns (searchignore world) (gitignore world) = Returns patterns \<and>
          \<not> ignores patterns (path_relative (processCwd world) dirPath (path_join dirPath name)) \<and>
          \<not> isBinaryFile (path_join dirPath name) \<longrightarrow>
            indexDirectory world dirPath force idx =
              indexDirectory (world\<lparr>root := Returns entries\<rparr>) dirPath force idx)"
proof -
  have skip: "walkFile cwd ig dirPath cur name (Returns (sz, mtime)) r v =
      (if ig (path_relative cwd dirPath (path_join cur name))
       then v\<lparr>counts := (counts v)\<lparr>ignoredFiles := ignoredFiles (counts v) + 1\<rparr>\<rparr>
       else if isBinaryFile (path_join cur name)
       then v\<lparr>counts := (counts v)\<lparr>binaryFiles := binaryFiles (counts v) + 1\<rparr>\<rparr>
       else v)" for cwd ig cur r v
    using assms by (simp add: walkFile_def Let_def)
  have "indexDirectory world dirPath force idx =
          indexDirectory (world\<lparr>root := Returns entries\<rparr>) dirPath force idx"
    if "root world = Returns (File name (Returns (sz, mtime)) rd # entries)"
      and "loadIgnorePatterns (searchignore world) (gitignore world) = Returns patterns"
      and "\<not> ignores patterns (path_relative (processCwd world) dirPath (path_join dirPath name))"
      and "\<not> isBinaryFile (path_join dirPath name)"
    using that by (simp add: indexDirectory_def Let_def skip)
  then show ?thesis
    by (simp add: skip)
qed

subsection \<open>C6 and C7: the weight of a term\<close>

lemma idf_of_Num:
  "map_of (docFreq idx) token = Some (Num df) \<Longrightarrow> 0 \<le> df \<Longrightarrow> 0 \<le> totalDocs idx \<Longrightarrow>
   idf_of idx token = Some (idf (totalDocs idx) df)"
  by (simp add: idf_of_def)

lemma idf_strict_decreasing:
  assumes "0 \<le> dfX" and "dfX < dfY" and "0 \<le> nDocs"
  shows "idf nDocs dfY < idf nDocs dfX"
proof -
  have "real_of_int (nDocs + 1) / real_of_int (dfY + 1)
      < real_of_int (nDocs + 1) / real_of_int (dfX + 1)"
    using assms by (simp add: frac_less2)
  moreover have "0 < real_of_int (nDocs + 1) / real_of_int (dfY + 1)"
    using assms by simp
  ultimately show ?thesis
    by (simp add: idf_def)
qed

text \<open>
  C6: two documents of equal \<open>wordCount\<close>, one containing term X and the other term Y,
  both \<open>c\<close> times (so \<open>c\<close> is at least 1), with \<open>docFreq[X]\<close> strictly lower than
  \<open>docFreq[Y]\<close> and both between 1 and \<open>totalDocs\<close>: the contribution
  \<open>(c / wordCount) * idf\<close> that \<open>search\<close> adds for X is strictly greater than the one it
  adds for Y, and for fixed \<open>totalDocs\<close> the weight is strictly decreasing in \<open>docFreq\<close>.
  Scores are real numbers here.
\<close>

theorem ranking_monotone:
  assumes "1 \<le> dfX" and "dfX < dfY" and "dfY \<le> nDocs" and "1 \<le> c" and "c \<le> wc"
  shows "tf c wc * idf nDocs dfY < tf c wc * idf nDocs dfX \<and>
         idf nDocs dfY < idf nDocs dfX"
proof -
  have lt: "idf nDocs dfY < idf nDocs dfX"
    using assms by (intro idf_strict_decreasing) simp_all
  have "0 < tf c wc"
    using assms by (simp add: tf_def)
  with lt show ?thesis
    by simp
qed

text \<open>C6, witness: three documents, terms in one and in two of them, each once in five words.\<close>

theorem ranking_monotone_witness:
  "(1::int) \<le> 1 \<and> (1::int) < 2 \<and> (2::int) \<le> 3 \<and> (1::nat) \<le> 1 \<and> (1::nat) \<le> 5 \<and>
   tf 1 5 * idf 3 2 < tf 1 5 * idf 3 1 \<and> idf 3 2 < idf 3 1"
  using ranking_monotone [of 1 2 3 1 5] by simp

text \<open>
  C7: for a term with \<open>1 \<le> docFreq[term] \<le> totalDocs\<close>, the weight that \<open>search\<close> computes
  is the number \<open>ln((totalDocs + 1) / (docFreq[term] + 1)) + 1\<close>, and it is at least 1, so
  strictly positive; the bound is reached when the term is in every document.
\<close>

theorem idf_at_least_one:
  assumes "map_of (docFreq idx) token = Some (Num df)"
    and "1 \<le> df" and "df \<le> totalDocs idx"
  shows "idf_of idx token =
           Some (ln (real_of_int (totalDocs idx + 1) / real_of_int (df + 1)) + 1) \<and>
         1 \<le> idf (totalDocs idx) df \<and> 0 < idf (totalDocs idx) df \<and>
         (df = totalDocs idx \<longrightarrow> idf (totalDocs idx) df = 1)"
proof -
  have "1 \<le> real_of_int (totalDocs idx + 1) / real_of_int (df + 1)"
    using assms by simp
  then have "0 \<le> ln (real_of_int (totalDocs idx + 1) / real_of_int (df + 1))"
    by simp
  then have "1 \<le> idf (totalDocs idx) df"
    by (simp add: idf_def)
  moreover have "idf_of idx token = Some (idf (totalDocs idx) df)"
    using assms by (intro idf_of_Num) simp_all
  moreover have "df = totalDocs idx \<longrightarrow> idf (totalDocs idx) df = 1"
    using assms by (simp add: idf_def)
  ultimately show ?thesis
    by (simp add: idf_def)
qed

text \<open>C7, witness: \<open>banana\<close> is in both documents of the example index.\<close>

theorem idf_at_least_one_witness:
  "map_of (docFreq index_ab) ''banana'' = Some (Num 2) \<and> (1::int) \<le> 2 \<and>
   2 \<le> totalDocs index_ab \<and> idf_of index_ab ''banana'' = Some 1 \<and>
   1 \<le> idf (totalDocs index_ab) 2"
proof -
  have h: "map_of (docFreq index_ab) ''banana'' = Some (Num 2)" "(1::int) \<le> 2"
    "2 \<le> totalDocs index_ab"
    unfolding index_ab_value by simp_all
  have t: "totalDocs index_ab = 2"
    unfolding index_ab_value by simp
  from idf_at_least_one [OF h] show ?thesis
    using h t by simp
qed

subsection \<open>C8: the removal phase of a forced run\<close>

lemma foldl_removeDocument_documents:
  "documents (foldl (\<lambda>i p. removeDocument p i) idx ps) =
     filter (\<lambda>e. fst e \<notin> set ps) (documents idx)"
proof (induction ps arbitrary: idx)
  case Nil
  then show ?case by simp
next
  case (Cons p ps)
  have "filter (\<lambda>e. fst e \<notin> set ps) (AList.delete p (documents idx)) =
        filter (\<lambda>e. fst e \<notin> set (p # ps)) (documents idx)"
    by (auto simp: AList.delete_eq intro: filter_cong)
  with Cons show ?case
    by (simp add: removeDocument_documents)
qed

text \<open>
  What the removal phase does: it removes exactly the documents whose path has
  \<open>dirPath\<close> as a prefix of its characters, and keeps the records of all others.
\<close>

lemma forceRemove_documents:
  "documents (forceRemove dirPath idx) =
     filter (\<lambda>e. \<not> prefix dirPath (fst e)) (documents idx)"
  by (auto simp: forceRemove_def Let_def foldl_removeDocument_documents intro: filter_cong)

lemma lies_under_prefix: "lies_under dirPath p \<Longrightarrow> prefix dirPath p"
  by (auto simp: lies_under_def prefix_def)

lemma index_sibling_value:
  "index_sibling =
     \<lparr>version = 1,
      documents = [(''/a/bc/x.txt'', \<lparr>filename = ''x.txt'', content = ''hello world'',
         modified = 1, size_chars = 11, extension = ''txt'', wordCount = 2, uniqueWords = 2\<rparr>)],
      invertedIndex = [(''hello'', [(''/a/bc/x.txt'', Count 1)]), (''world'', [(''/a/bc/x.txt'', Count 1)])],
      docFreq = [(''hello'', Num 1), (''world'', Num 1)],
      totalDocs = 1, lastUpdated = None\<rparr>"
proof -
  have "tokenize ''hello world'' = [''hello'', ''world'']"
    by code_simp
  then show ?thesis
    unfolding index_sibling_def by (simp add: eval_defs)
qed

text \<open>
  C8 at a failing input: the index holds \<open>/a/bc/x.txt\<close>, which does not lie under the
  directory \<open>/a/b\<close>. A forced \<open>indexDirectory\<close> of \<open>/a/b\<close> removes it in its removal phase,
  with its postings and document frequencies, because \<open>/a/bc/x.txt\<close> starts with the
  characters \<open>/a/b\<close>; the crawl of \<open>/a/b\<close> does not bring it back.
\<close>

theorem force_removes_sibling_directory:
  "\<not> lies_under ''/a/b'' ''/a/bc/x.txt'' \<and>
   map fst (documents index_sibling) = [''/a/bc/x.txt''] \<and>
   forceRemove ''/a/b'' index_sibling = createEmptyIndex \<and>
   documents (fst (indexDirectory world_empty ''/a/b'' True index_sibling)) = []"
proof -
  have 1: "\<not> lies_under ''/a/b'' ''/a/bc/x.txt''"
    by (simp add: lies_under_def)
  have 2: "forceRemove ''/a/b'' index_sibling = createEmptyIndex"
    unfolding index_sibling_value by (simp add: forceRemove_def eval_defs)
  have 3: "documents (fst (indexDirectory world_empty ''/a/b'' True index_sibling)) = []"
    by (simp add: indexDirectory_def world_empty_def loadIgnorePatterns_none 2
          createEmptyIndex_def Let_def)
  have 4: "map fst (documents index_sibling) = [''/a/bc/x.txt'']"
    unfolding index_sibling_value by simp
  from 1 2 3 4 show ?thesis by blast
qed

subsection \<open>C9: loading a missing or corrupt index\<close>

text \<open>
  C9: when the backing file is missing, cannot be read, or holds text that \<open>JSON.parse\<close>
  rejects, \<open>loadIndex\<close> raises nothing and returns the fresh empty index: version 1,
  empty \<open>documents\<close>, \<open>invertedIndex\<close> and \<open>docFreq\<close>, \<open>totalDocs\<close> 0, \<open>lastUpdated\<close> null.
\<close>

theorem loadIndex_missing_or_corrupt:
  assumes "file = Missing \<or> file = Unreadable \<or> (\<exists>text. file = Contents text \<and> parse text = None)"
  shows "loadIndex parse file =
           Fresh \<lparr>version = 1, documents = [], invertedIndex = [], docFreq = [],
                  totalDocs = 0, lastUpdated = None\<rparr>"
  using assms by (auto simp: loadIndex_def createEmptyIndex_def)

text \<open>C9, witness: a parser that accepts only the text \<open>{}\<close>, and a file that holds \<open>{broken\<close>.\<close>

theorem loadIndex_missing_or_corrupt_witness:
  "(\<lambda>s. if s = ''{}'' then Some () else None) ''{broken'' = None \<and>
   loadIndex (\<lambda>s. if s = ''{}'' then Some () else None) (Contents ''{broken'') =
     Fresh \<lparr>version = 1, documents = [], invertedIndex = [], docFreq = [],
            totalDocs = 0, lastUpdated = None\<rparr> \<and>
   loadIndex (\<lambda>s. if s = ''{}'' then Some () else None) Missing =
     Fresh \<lparr>version = 1, documents = [], invertedIndex = [], docFreq = [],
            totalDocs = 0, lastUpdated = None\<rparr>"
  using loadIndex_missing_or_corrupt
          [of "Contents ''{broken''" "\<lambda>s. if s = ''{}'' then Some () else None"]
        loadIndex_missing_or_corrupt
          [of Missing "\<lambda>s. if s = ''{}'' then Some () else None"]
  by simp

subsection \<open>C10: update never reports an added document\<close>

lemma update_entry_added: "added (snd (update_entry disk st e)) = added (snd st)"
  by (cases st; cases e)
     (auto simp: update_entry_def split: fsentry.splits io.splits)

lemma foldl_update_entry_added:
  "added (snd (foldl (update_entry disk) st es)) = added (snd st)"
  by (induction es arbitrary: st) (simp_all add: update_entry_added)

text \<open>
  C10: for every index and every state of the disk, \<open>update\<close> returns a result unless
  \<open>saveIndex\<close> throws, and the result it returns has \<open>added\<close> equal to 0.
\<close>

theorem update_added_zero:
  "\<exists>r. added r = 0 \<and>
       snd (update disk saveFails idx) = (if saveFails then Inl Exception else Inr r)"
proof -
  obtain idx1 r where f: "foldl (update_entry disk)
      (idx, \<lparr>added = 0, removed = 0, modified' = 0\<rparr>) (documents idx) = (idx1, r)"
    by (cases "foldl (update_entry disk)
      (idx, \<lparr>added = 0, removed = 0, modified' = 0\<rparr>) (documents idx)")
  have "added r = 0"
    using foldl_update_entry_added
            [of disk "(idx, \<lparr>added = 0, removed = 0, modified' = 0\<rparr>)" "documents idx"] f
    by simp
  with f show ?thesis
    by (auto simp: update_def)
qed

text \<open>
  On the example disk \<open>a.txt\<close> is gone and \<open>b.txt\<close> has changed: \<open>update\<close> reports one
  removed, one modified and none added.
\<close>

lemma update_example_result:
  "snd (update disk_b False index_ab) = Inr \<lparr>added = 0, removed = 1, modified' = 1\<rparr>"
  unfolding index_ab_value
  by (simp add: update_def update_entry_def disk_b_def eval_defs)


end
